theory Spec2Isabelle
  imports Complex_Main
begin

section \<open>Coupled online linear regression (notebook cell "coupled_gradient")\<close>

text \<open>
  The notebook trains two linear models jointly by per-sample gradient descent. The
  weight vector \<open>w\<close> holds both models: its first half is the task-0 segment and its
  second half the task-1 segment. The embedding below follows the Python 2 / numpy code
  of the cell statement by statement.

  Numbers: in this first part numpy's \<open>float64\<close> arrays are modelled as lists of
  \<^typ>\<open>real\<close>, so its statements are about exact arithmetic; rounding, infinities
  and NaN are outside it. The one property that overflow decides is settled in the
  second part, over float64 values with infinities and NaN. The task identifier
  \<open>c[i]\<close> is read from a float array in the notebook and is therefore a number too.
\<close>

subsection \<open>Exceptions and data\<close>

text \<open>
  \<open>ValueError\<close>: numpy's shape mismatch (\<open>dot\<close> of vectors of different length,
  operands that cannot be broadcast together). \<open>NameError\<close>: reading a Python variable
  that was never bound. \<open>IndexError\<close>: an index outside an array.
\<close>

datatype error = ValueError | NameError | IndexError

text \<open>
  Column \<open>i\<close> of \<open>X\<close>, \<open>c[i]\<close> and \<open>y[i]\<close> together are one sample; the data set is
  the list of its samples (the three arrays have the same number of entries).
\<close>

record sample =
  features :: "real list"
  task_id :: real
  label :: real

definition bind_err :: "error + 'a \<Rightarrow> ('a \<Rightarrow> error + 'b) \<Rightarrow> error + 'b" where
  "bind_err m f = (case m of Inl e \<Rightarrow> Inl e | Inr v \<Rightarrow> f v)"

subsection \<open>The numpy operations the cell uses, on one-dimensional arrays\<close>

definition np_zeros :: "nat \<Rightarrow> real list" where
  "np_zeros n = replicate n 0"

text \<open>\<open>a.dot(b)\<close>: the two vectors must have the same length.\<close>

definition np_dot :: "real list \<Rightarrow> real list \<Rightarrow> error + real" where
  "np_dot a b =
     (if length a = length b then Inr (sum_list (map2 (*) a b)) else Inl ValueError)"

text \<open>\<open>s * v\<close> for a scalar \<open>s\<close>.\<close>

definition np_scale :: "real \<Rightarrow> real list \<Rightarrow> real list" where
  "np_scale s v = map (\<lambda>u. s * u) v"

text \<open>
  \<open>a + b\<close> and \<open>a - b\<close> for two arrays: elementwise when the lengths agree; an array
  of length one is stretched to the other's length; anything else raises.
\<close>

definition np_binop :: "(real \<Rightarrow> real \<Rightarrow> real) \<Rightarrow> real list \<Rightarrow> real list \<Rightarrow> error + real list" where
  "np_binop f a b =
     (if length a = length b then Inr (map2 f a b)
      else if length a = 1 then Inr (map (f (hd a)) b)
      else if length b = 1 then Inr (map (\<lambda>u. f u (hd b)) a)
      else Inl ValueError)"

text \<open>
  The value stored into a slice of \<open>n\<close> cells has \<open>n\<close> entries, or one entry that is
  repeated; anything else raises.
\<close>

definition broadcast_to :: "real list \<Rightarrow> nat \<Rightarrow> error + real list" where
  "broadcast_to v n =
     (if length v = n then Inr v
      else if length v = 1 then Inr (replicate n (hd v))
      else Inl ValueError)"

text \<open>\<open>a[:m] = v\<close> and \<open>a[m:] = v\<close>.\<close>

definition set_head :: "real list \<Rightarrow> nat \<Rightarrow> real list \<Rightarrow> error + real list" where
  "set_head a m v =
     bind_err (broadcast_to v (min m (length a))) (\<lambda>u. Inr (u @ drop m a))"

definition set_tail :: "real list \<Rightarrow> nat \<Rightarrow> real list \<Rightarrow> error + real list" where
  "set_tail a m v =
     bind_err (broadcast_to v (length a - m)) (\<lambda>u. Inr (take m a @ u))"

subsection \<open>The gradient of one sample\<close>

text \<open>
  \<^verbatim>\<open>
  def coupled_gradient(x, c, w, y, reg, coupling_reg):
      k = len(w)
      if c==0:
          w_seg = w[:k/2]
      else:
          w_seg = w[k/2:]
      pred = x.dot(w_seg)
      coupling = (w[:k/2] - w[k/2:]) * (1 - 2*c)
      err = pred - y
      error_grad = np.zeros(k)
      reg_term = np.zeros(k)
      coupling_term = np.zeros(k)
      if c==0:
          error_grad[:k/2] = err*x
          reg_term[:k/2] = w_seg
          coupling_term[:k/2] = coupling
      else:
          error_grad[k/2:] = err*x
          reg_term[k/2:] = w_seg
          coupling_term[k/2:] = coupling
      grad = error_grad + reg * reg_term + coupling_reg * coupling_term
      return (grad, err)
  \<close>
  \<open>k/2\<close> is Python 2 integer division.
\<close>

definition w_seg :: "real \<Rightarrow> real list \<Rightarrow> real list" where
  "w_seg c w = (if c = 0 then take (length w div 2) w else drop (length w div 2) w)"

definition fill_terms ::
  "real \<Rightarrow> nat \<Rightarrow> real list \<Rightarrow> real list \<Rightarrow> real list \<Rightarrow>
     error + (real list \<times> real list \<times> real list)" where
  "fill_terms c k ex ws coupling =
     (if c = 0 then
        bind_err (set_head (np_zeros k) (k div 2) ex) (\<lambda>error_grad.
        bind_err (set_head (np_zeros k) (k div 2) ws) (\<lambda>reg_term.
        bind_err (set_head (np_zeros k) (k div 2) coupling) (\<lambda>coupling_term.
        Inr (error_grad, reg_term, coupling_term))))
      else
        bind_err (set_tail (np_zeros k) (k div 2) ex) (\<lambda>error_grad.
        bind_err (set_tail (np_zeros k) (k div 2) ws) (\<lambda>reg_term.
        bind_err (set_tail (np_zeros k) (k div 2) coupling) (\<lambda>coupling_term.
        Inr (error_grad, reg_term, coupling_term)))))"

definition coupled_gradient ::
  "real list \<Rightarrow> real \<Rightarrow> real list \<Rightarrow> real \<Rightarrow> real \<Rightarrow> real \<Rightarrow> error + (real list \<times> real)" where
  "coupled_gradient x c w y reg coupling_reg =
     (let k = length w in
      bind_err (np_dot x (w_seg c w)) (\<lambda>pred.
      bind_err (np_binop (-) (take (k div 2) w) (drop (k div 2) w)) (\<lambda>d.
      let coupling = np_scale (1 - 2 * c) d;
          err = pred - y
      in
      bind_err (fill_terms c k (np_scale err x) (w_seg c w) coupling)
        (\<lambda>(error_grad, reg_term, coupling_term).
      bind_err (np_binop (+) error_grad (np_scale reg reg_term)) (\<lambda>s.
      bind_err (np_binop (+) s (np_scale coupling_reg coupling_term)) (\<lambda>grad.
      Inr (grad, err)))))))"

subsection \<open>The training loop\<close>

text \<open>
  \<^verbatim>\<open>
  w = np.zeros(2*K)
  for iter in range(num_iter):
      cum_err = 0
      idx = np.random.permutation(len(y))
      for i in idx:
          try:
              grad, err = coupled_gradient(X[:,i], c[i], w, y[i], reg, coupling_reg)
          except:
              print i
              print X[:,i]
              print c[i]
          w += -learning_rate * grad
          cum_err += err**2
      if (iter % 10) == 0:
          print 'After iteration %i: %f' % (iter, cum_err)
  \<close>
  The script's variables \<open>reg\<close>, \<open>coupling_reg\<close>, \<open>learning_rate\<close> and \<open>num_iter\<close>
  are the fields of \<open>hyper\<close>. The reporting period is the literal 10 of the script.
\<close>

record hyper =
  reg :: real
  coupling_reg :: real
  learning_rate :: real
  num_iter :: nat

definition report_interval :: nat where
  "report_interval = 10"

text \<open>What the script prints: the three lines of the handler, and the periodic report.\<close>

datatype printed = Offending nat "real list" real | Report nat real

text \<open>
  The variables the loop reads and writes. \<open>bound\<close> is the pair of variables
  \<open>grad, err\<close>: \<open>None\<close> while they have never been assigned. The tuple assignment
  binds both or, when the call raises, neither.
\<close>

record loop_state =
  weights :: "real list"
  cum_err :: real
  bound :: "(real list \<times> real) option"
  out :: "printed list"

text \<open>\<open>w += -learning_rate * grad\<close>: in place, so the right-hand side must fit \<open>w\<close>.\<close>

definition sgd_update :: "real \<Rightarrow> real list \<Rightarrow> real list \<Rightarrow> error + real list" where
  "sgd_update lr w grad =
     bind_err (broadcast_to (np_scale (- lr) grad) (length w)) (\<lambda>u. Inr (map2 (+) w u))"

text \<open>
  The two statements after the \<open>try\<close>: they read \<open>grad\<close> and \<open>err\<close>, whatever bound
  them last.
\<close>

definition apply_bound :: "hyper \<Rightarrow> loop_state \<Rightarrow> error + loop_state" where
  "apply_bound hp st =
     (case bound st of
        None \<Rightarrow> Inl NameError
      | Some (grad, err) \<Rightarrow>
          bind_err (sgd_update (learning_rate hp) (weights st) grad) (\<lambda>w'.
          Inr (st\<lparr>weights := w', cum_err := cum_err st + err\<^sup>2\<rparr>)))"

text \<open>
  One iteration of the inner loop, for index \<open>i\<close>. An index outside the data raises
  inside the \<open>try\<close> and again inside the handler, from where it leaves the loop.
\<close>

definition sgd_step :: "hyper \<Rightarrow> sample list \<Rightarrow> nat \<Rightarrow> loop_state \<Rightarrow> error + loop_state" where
  "sgd_step hp samples i st =
     (if length samples \<le> i then Inl IndexError
      else
        let s = samples ! i in
        case coupled_gradient (features s) (task_id s) (weights st) (label s)
               (reg hp) (coupling_reg hp) of
          Inr ge \<Rightarrow> apply_bound hp (st\<lparr>bound := Some ge\<rparr>)
        | Inl e \<Rightarrow>
            apply_bound hp (st\<lparr>out := out st @ [Offending i (features s) (task_id s)]\<rparr>))"

fun sgd_pass :: "hyper \<Rightarrow> sample list \<Rightarrow> nat list \<Rightarrow> loop_state \<Rightarrow> error + loop_state" where
  "sgd_pass hp samples [] st = Inr st"
| "sgd_pass hp samples (i # idx) st =
     bind_err (sgd_step hp samples i st) (sgd_pass hp samples idx)"

text \<open>
  One iteration of the outer loop. \<open>idx\<close> is the order that
  \<open>np.random.permutation(len(y))\<close> returned for this iteration.
\<close>

definition sgd_epoch ::
  "hyper \<Rightarrow> sample list \<Rightarrow> nat list \<Rightarrow> nat \<Rightarrow> loop_state \<Rightarrow> error + loop_state" where
  "sgd_epoch hp samples idx iter st =
     bind_err (sgd_pass hp samples idx (st\<lparr>cum_err := 0\<rparr>)) (\<lambda>st'.
     Inr (if iter mod report_interval = 0
          then st'\<lparr>out := out st' @ [Report iter (cum_err st')]\<rparr>
          else st'))"

text \<open>
  The outer loop over the iterations \<open>its\<close>; \<open>orders iter\<close> is the order drawn in
  iteration \<open>iter\<close>.
\<close>

fun sgd_epochs ::
  "hyper \<Rightarrow> sample list \<Rightarrow> (nat \<Rightarrow> nat list) \<Rightarrow> nat list \<Rightarrow> loop_state \<Rightarrow> error + loop_state" where
  "sgd_epochs hp samples orders [] st = Inr st"
| "sgd_epochs hp samples orders (iter # its) st =
     bind_err (sgd_epoch hp samples (orders iter) iter st) (sgd_epochs hp samples orders its)"

text \<open>
  The whole run, from the weights \<open>w\<close> (the script starts from \<open>np.zeros(2*K)\<close>,
  which is \<open>np_zeros (2 * K)\<close>). \<open>prev\<close> is what \<open>grad, err\<close> are bound to
  when the cell starts (\<open>None\<close> in a fresh interpreter); \<open>cum_err\<close> is assigned before
  it is read, so its initial value does not matter.
\<close>

definition train ::
  "hyper \<Rightarrow> sample list \<Rightarrow> (nat \<Rightarrow> nat list) \<Rightarrow> real list \<Rightarrow> (real list \<times> real) option
     \<Rightarrow> error + loop_state" where
  "train hp samples orders w prev =
     sgd_epochs hp samples orders [0..<num_iter hp]
       \<lparr>weights = w, cum_err = 0, bound = prev, out = []\<rparr>"

text \<open>The reported cumulative squared errors, in the order they were printed.\<close>

fun epoch_losses :: "printed list \<Rightarrow> real list" where
  "epoch_losses [] = []"
| "epoch_losses (Report iter e # os) = e # epoch_losses os"
| "epoch_losses (Offending i x c # os) = epoch_losses os"

subsection \<open>The fixed-order loops of the preceding cell\<close>








subsection \<open>The gradient as the design document words it\<close>

text \<open>
  The design document describes the gradient of a sample of task \<open>c\<close> for a weight
  vector of \<open>2K\<close> entries, segment 0 at the indices \<open>[0,K)\<close> and segment 1 at
  \<open>[K,2K)\<close>. These definitions follow its wording, entry by entry, and are compared
  with \<open>coupled_gradient\<close> below.
\<close>

definition spec_w0 :: "nat \<Rightarrow> real list \<Rightarrow> real list" where
  "spec_w0 K w = map (\<lambda>j. w ! j) [0..<K]"

definition spec_w1 :: "nat \<Rightarrow> real list \<Rightarrow> real list" where
  "spec_w1 K w = map (\<lambda>j. w ! (K + j)) [0..<K]"

definition spec_w_active :: "nat \<Rightarrow> real \<Rightarrow> real list \<Rightarrow> real list" where
  "spec_w_active K c w = (if c = 0 then spec_w0 K w else spec_w1 K w)"

definition spec_dot :: "nat \<Rightarrow> real list \<Rightarrow> real list \<Rightarrow> real" where
  "spec_dot K a b = (\<Sum>j\<leftarrow>[0..<K]. a ! j * b ! j)"

definition spec_error :: "nat \<Rightarrow> real list \<Rightarrow> real \<Rightarrow> real list \<Rightarrow> real \<Rightarrow> real" where
  "spec_error K x c w y = spec_dot K x (spec_w_active K c w) - y"

text \<open>
  A vector of \<open>2K\<close> entries that is zero everywhere except on the segment of task
  \<open>c\<close>, where entry \<open>j\<close> of the segment is \<open>f j\<close>.
\<close>

definition on_segment :: "nat \<Rightarrow> real \<Rightarrow> (nat \<Rightarrow> real) \<Rightarrow> real list" where
  "on_segment K c f =
     map (\<lambda>i. if c = 0 then (if i < K then f i else 0)
               else (if K \<le> i then f (i - K) else 0)) [0..<2 * K]"

definition spec_error_gradient :: "nat \<Rightarrow> real list \<Rightarrow> real \<Rightarrow> real list \<Rightarrow> real \<Rightarrow> real list" where
  "spec_error_gradient K x c w y = on_segment K c (\<lambda>j. spec_error K x c w y * x ! j)"

definition spec_l2_gradient :: "nat \<Rightarrow> real \<Rightarrow> real list \<Rightarrow> real \<Rightarrow> real list" where
  "spec_l2_gradient K c w r = on_segment K c (\<lambda>j. r * spec_w_active K c w ! j)"

definition spec_sign :: "real \<Rightarrow> real" where
  "spec_sign c = (if c = 0 then 1 else - 1)"

definition spec_coupling_gradient :: "nat \<Rightarrow> real \<Rightarrow> real list \<Rightarrow> real \<Rightarrow> real list" where
  "spec_coupling_gradient K c w cr =
     on_segment K c (\<lambda>j. cr * (spec_w0 K w ! j - spec_w1 K w ! j) * spec_sign c)"

definition spec_gradient ::
  "nat \<Rightarrow> real list \<Rightarrow> real \<Rightarrow> real list \<Rightarrow> real \<Rightarrow> real \<Rightarrow> real \<Rightarrow> real list" where
  "spec_gradient K x c w y r cr =
     map (\<lambda>i. spec_error_gradient K x c w y ! i + spec_l2_gradient K c w r ! i
               + spec_coupling_gradient K c w cr ! i) [0..<2 * K]"

subsection \<open>The training loop as the design document words it\<close>

text \<open>
  The data invariant of the design document: every sample has \<open>K\<close> features and a
  task identifier that is 0 or 1.
\<close>

definition valid_sample :: "nat \<Rightarrow> sample \<Rightarrow> bool" where
  "valid_sample K s = (length (features s) = K \<and> task_id s \<in> {0, 1})"

text \<open>"Update \<open>weights \<leftarrow> weights - learning_rate * gradient\<close>", entry by entry.\<close>

definition spec_update :: "nat \<Rightarrow> hyper \<Rightarrow> real list \<Rightarrow> sample \<Rightarrow> real list" where
  "spec_update K hp w s =
     map (\<lambda>i. w ! i - learning_rate hp *
                 spec_gradient K (features s) (task_id s) w (label s) (reg hp) (coupling_reg hp) ! i)
       [0..<2 * K]"

text \<open>
  "For each sample in the chosen order: call the Gradient Computer; update the weights;
  accumulate \<open>cumulative_squared_error += error\<^sup>2\<close>." The pair is (weights, cumulative
  squared error).
\<close>

fun spec_pass :: "nat \<Rightarrow> hyper \<Rightarrow> sample list \<Rightarrow> real list \<times> real \<Rightarrow> real list \<times> real" where
  "spec_pass K hp [] (w, cse) = (w, cse)"
| "spec_pass K hp (s # ss) (w, cse) =
     spec_pass K hp ss
       (spec_update K hp w s,
        cse + (spec_error K (features s) (task_id s) w (label s))\<^sup>2)"

text \<open>
  One epoch from the weights \<open>w\<close> over the samples \<open>ss\<close>, in that order, with the
  cumulative squared error reset to zero first.
\<close>

definition spec_epoch :: "nat \<Rightarrow> hyper \<Rightarrow> sample list \<Rightarrow> real list \<Rightarrow> real list \<times> real" where
  "spec_epoch K hp ss w = spec_pass K hp ss (w, 0)"

text \<open>
  The weights at the start of epoch \<open>e\<close>, when epoch \<open>e'\<close> visits the samples
  \<open>visit e'\<close>; and the cumulative squared error of epoch \<open>e\<close>.
\<close>

primrec spec_weights_at ::
  "nat \<Rightarrow> hyper \<Rightarrow> (nat \<Rightarrow> sample list) \<Rightarrow> real list \<Rightarrow> nat \<Rightarrow> real list" where
  "spec_weights_at K hp visit w 0 = w"
| "spec_weights_at K hp visit w (Suc e) =
     fst (spec_epoch K hp (visit e) (spec_weights_at K hp visit w e))"

definition spec_epoch_loss ::
  "nat \<Rightarrow> hyper \<Rightarrow> (nat \<Rightarrow> sample list) \<Rightarrow> real list \<Rightarrow> nat \<Rightarrow> real" where
  "spec_epoch_loss K hp visit w e =
     snd (spec_epoch K hp (visit e) (spec_weights_at K hp visit w e))"

text \<open>The samples that iteration \<open>e\<close> of the script visits, in order.\<close>

definition visited :: "sample list \<Rightarrow> (nat \<Rightarrow> nat list) \<Rightarrow> nat \<Rightarrow> sample list" where
  "visited samples orders e = map (\<lambda>i. samples ! i) (orders e)"

text \<open>
  Every index that the first \<open>n\<close> iterations visit is inside the data, and the sample
  there satisfies the data invariant.
\<close>

definition valid_run :: "nat \<Rightarrow> sample list \<Rightarrow> (nat \<Rightarrow> nat list) \<Rightarrow> nat \<Rightarrow> bool" where
  "valid_run K samples orders n =
     list_all (\<lambda>e. list_all (\<lambda>i. i < length samples \<and> valid_sample K (samples ! i)) (orders e))
       [0..<n]"

section \<open>The coupled cell over float64 values with infinities and NaN\<close>

text \<open>
  Exact reals never overflow, and \<open>0 * u = 0\<close> for every real \<open>u\<close>. In float64 a
  large product becomes infinite, and \<open>0 * inf\<close> is NaN. Where that difference decides
  a property, the cell is embedded a second time, statement by statement as above, over
  the values of a float64: a finite real, plus or minus infinity, or NaN. A finite
  result beyond the largest float64 becomes infinite. Inside the range the arithmetic is
  still exact: rounding and the sign of zero are not modelled (the cell never divides,
  so the sign of a zero never reaches a value).
\<close>

datatype fl = Fin real | PInf | NInf | NaN

definition fl_max :: real where
  "fl_max = (2 ^ 53 - 1) * 2 ^ 971"

definition fl_of :: "real \<Rightarrow> fl" where
  "fl_of r = (if fl_max < r then PInf else if r < - fl_max then NInf else Fin r)"

text \<open>A value that a float64 can hold: a finite one is inside the range.\<close>

fun is_f64 :: "fl \<Rightarrow> bool" where
  "is_f64 (Fin a) = (\<bar>a\<bar> \<le> fl_max)"
| "is_f64 PInf = True"
| "is_f64 NInf = True"
| "is_f64 NaN = True"

fun fl_neg :: "fl \<Rightarrow> fl" where
  "fl_neg (Fin a) = Fin (- a)"
| "fl_neg PInf = NInf"
| "fl_neg NInf = PInf"
| "fl_neg NaN = NaN"

fun fl_add :: "fl \<Rightarrow> fl \<Rightarrow> fl" where
  "fl_add (Fin a) (Fin b) = fl_of (a + b)"
| "fl_add (Fin a) PInf = PInf"
| "fl_add (Fin a) NInf = NInf"
| "fl_add PInf (Fin b) = PInf"
| "fl_add PInf PInf = PInf"
| "fl_add PInf NInf = NaN"
| "fl_add NInf (Fin b) = NInf"
| "fl_add NInf PInf = NaN"
| "fl_add NInf NInf = NInf"
| "fl_add NaN v = NaN"
| "fl_add u NaN = NaN"

definition fl_sub :: "fl \<Rightarrow> fl \<Rightarrow> fl" where
  "fl_sub u v = fl_add u (fl_neg v)"

fun fl_mul :: "fl \<Rightarrow> fl \<Rightarrow> fl" where
  "fl_mul (Fin a) (Fin b) = fl_of (a * b)"
| "fl_mul (Fin a) PInf = (if a = 0 then NaN else if 0 < a then PInf else NInf)"
| "fl_mul (Fin a) NInf = (if a = 0 then NaN else if 0 < a then NInf else PInf)"
| "fl_mul PInf (Fin b) = (if b = 0 then NaN else if 0 < b then PInf else NInf)"
| "fl_mul NInf (Fin b) = (if b = 0 then NaN else if 0 < b then NInf else PInf)"
| "fl_mul PInf PInf = PInf"
| "fl_mul PInf NInf = NInf"
| "fl_mul NInf PInf = NInf"
| "fl_mul NInf NInf = PInf"
| "fl_mul NaN v = NaN"
| "fl_mul u NaN = NaN"

subsection \<open>Data and numpy operations\<close>

record sample_fl =
  features_fl :: "fl list"
  task_id_fl :: fl
  label_fl :: fl

definition np_zeros_fl :: "nat \<Rightarrow> fl list" where
  "np_zeros_fl n = replicate n (Fin 0)"

text \<open>
  \<open>a.dot(b)\<close>: the products are added from left to right, starting from zero. (The
  order in which numpy adds them is not fixed by its interface; no statement below
  depends on it.)
\<close>

definition np_dot_fl :: "fl list \<Rightarrow> fl list \<Rightarrow> error + fl" where
  "np_dot_fl a b =
     (if length a = length b then Inr (foldl fl_add (Fin 0) (map2 fl_mul a b))
      else Inl ValueError)"

definition np_scale_fl :: "fl \<Rightarrow> fl list \<Rightarrow> fl list" where
  "np_scale_fl s v = map (\<lambda>u. fl_mul s u) v"

definition np_binop_fl :: "(fl \<Rightarrow> fl \<Rightarrow> fl) \<Rightarrow> fl list \<Rightarrow> fl list \<Rightarrow> error + fl list" where
  "np_binop_fl f a b =
     (if length a = length b then Inr (map2 f a b)
      else if length a = 1 then Inr (map (f (hd a)) b)
      else if length b = 1 then Inr (map (\<lambda>u. f u (hd b)) a)
      else Inl ValueError)"

definition broadcast_to_fl :: "fl list \<Rightarrow> nat \<Rightarrow> error + fl list" where
  "broadcast_to_fl v n =
     (if length v = n then Inr v
      else if length v = 1 then Inr (replicate n (hd v))
      else Inl ValueError)"

definition set_head_fl :: "fl list \<Rightarrow> nat \<Rightarrow> fl list \<Rightarrow> error + fl list" where
  "set_head_fl a m v =
     bind_err (broadcast_to_fl v (min m (length a))) (\<lambda>u. Inr (u @ drop m a))"

definition set_tail_fl :: "fl list \<Rightarrow> nat \<Rightarrow> fl list \<Rightarrow> error + fl list" where
  "set_tail_fl a m v =
     bind_err (broadcast_to_fl v (length a - m)) (\<lambda>u. Inr (take m a @ u))"

subsection \<open>The gradient of one sample\<close>

text \<open>
  The statements of \<open>coupled_gradient\<close>, in the same order. \<open>c==0\<close> compares floats;
  \<open>1 - 2*c\<close> is float arithmetic.
\<close>

definition w_seg_fl :: "fl \<Rightarrow> fl list \<Rightarrow> fl list" where
  "w_seg_fl c w = (if c = Fin 0 then take (length w div 2) w else drop (length w div 2) w)"

definition fill_terms_fl ::
  "fl \<Rightarrow> nat \<Rightarrow> fl list \<Rightarrow> fl list \<Rightarrow> fl list \<Rightarrow> error + (fl list \<times> fl list \<times> fl list)" where
  "fill_terms_fl c k ex ws coupling =
     (if c = Fin 0 then
        bind_err (set_head_fl (np_zeros_fl k) (k div 2) ex) (\<lambda>error_grad.
        bind_err (set_head_fl (np_zeros_fl k) (k div 2) ws) (\<lambda>reg_term.
        bind_err (set_head_fl (np_zeros_fl k) (k div 2) coupling) (\<lambda>coupling_term.
        Inr (error_grad, reg_term, coupling_term))))
      else
        bind_err (set_tail_fl (np_zeros_fl k) (k div 2) ex) (\<lambda>error_grad.
        bind_err (set_tail_fl (np_zeros_fl k) (k div 2) ws) (\<lambda>reg_term.
        bind_err (set_tail_fl (np_zeros_fl k) (k div 2) coupling) (\<lambda>coupling_term.
        Inr (error_grad, reg_term, coupling_term)))))"

definition coupled_gradient_fl ::
  "fl list \<Rightarrow> fl \<Rightarrow> fl list \<Rightarrow> fl \<Rightarrow> fl \<Rightarrow> fl \<Rightarrow> error + (fl list \<times> fl)" where
  "coupled_gradient_fl x c w y r cr =
     (let k = length w in
      bind_err (np_dot_fl x (w_seg_fl c w)) (\<lambda>pred.
      bind_err (np_binop_fl fl_sub (take (k div 2) w) (drop (k div 2) w)) (\<lambda>d.
      let coupling = np_scale_fl (fl_sub (Fin 1) (fl_mul (Fin 2) c)) d;
          err = fl_sub pred y
      in
      bind_err (fill_terms_fl c k (np_scale_fl err x) (w_seg_fl c w) coupling)
        (\<lambda>(error_grad, reg_term, coupling_term).
      bind_err (np_binop_fl fl_add error_grad (np_scale_fl r reg_term)) (\<lambda>s.
      bind_err (np_binop_fl fl_add s (np_scale_fl cr coupling_term)) (\<lambda>grad.
      Inr (grad, err)))))))"

subsection \<open>The training loop\<close>

record hyper_fl =
  reg_fl :: fl
  coupling_reg_fl :: fl
  learning_rate_fl :: fl
  num_iter_fl :: nat

datatype printed_fl = Offending_fl nat "fl list" fl | Report_fl nat fl

record loop_state_fl =
  weights_fl :: "fl list"
  cum_err_fl :: fl
  bound_fl :: "(fl list \<times> fl) option"
  out_fl :: "printed_fl list"

definition sgd_update_fl :: "fl \<Rightarrow> fl list \<Rightarrow> fl list \<Rightarrow> error + fl list" where
  "sgd_update_fl lr w grad =
     bind_err (broadcast_to_fl (np_scale_fl (fl_neg lr) grad) (length w))
       (\<lambda>u. Inr (map2 fl_add w u))"

text \<open>\<open>err**2\<close> is the product of \<open>err\<close> with itself.\<close>

definition apply_bound_fl :: "hyper_fl \<Rightarrow> loop_state_fl \<Rightarrow> error + loop_state_fl" where
  "apply_bound_fl hp st =
     (case bound_fl st of
        None \<Rightarrow> Inl NameError
      | Some (grad, err) \<Rightarrow>
          bind_err (sgd_update_fl (learning_rate_fl hp) (weights_fl st) grad) (\<lambda>w'.
          Inr (st\<lparr>weights_fl := w', cum_err_fl := fl_add (cum_err_fl st) (fl_mul err err)\<rparr>)))"

definition sgd_step_fl ::
  "hyper_fl \<Rightarrow> sample_fl list \<Rightarrow> nat \<Rightarrow> loop_state_fl \<Rightarrow> error + loop_state_fl" where
  "sgd_step_fl hp samples i st =
     (if length samples \<le> i then Inl IndexError
      else
        let s = samples ! i in
        case coupled_gradient_fl (features_fl s) (task_id_fl s) (weights_fl st) (label_fl s)
               (reg_fl hp) (coupling_reg_fl hp) of
          Inr ge \<Rightarrow> apply_bound_fl hp (st\<lparr>bound_fl := Some ge\<rparr>)
        | Inl e \<Rightarrow>
            apply_bound_fl hp
              (st\<lparr>out_fl := out_fl st @ [Offending_fl i (features_fl s) (task_id_fl s)]\<rparr>))"

fun sgd_pass_fl ::
  "hyper_fl \<Rightarrow> sample_fl list \<Rightarrow> nat list \<Rightarrow> loop_state_fl \<Rightarrow> error + loop_state_fl" where
  "sgd_pass_fl hp samples [] st = Inr st"
| "sgd_pass_fl hp samples (i # idx) st =
     bind_err (sgd_step_fl hp samples i st) (sgd_pass_fl hp samples idx)"

definition sgd_epoch_fl ::
  "hyper_fl \<Rightarrow> sample_fl list \<Rightarrow> nat list \<Rightarrow> nat \<Rightarrow> loop_state_fl \<Rightarrow> error + loop_state_fl" where
  "sgd_epoch_fl hp samples idx iter st =
     bind_err (sgd_pass_fl hp samples idx (st\<lparr>cum_err_fl := Fin 0\<rparr>)) (\<lambda>st'.
     Inr (if iter mod report_interval = 0
          then st'\<lparr>out_fl := out_fl st' @ [Report_fl iter (cum_err_fl st')]\<rparr>
          else st'))"

fun sgd_epochs_fl ::
  "hyper_fl \<Rightarrow> sample_fl list \<Rightarrow> (nat \<Rightarrow> nat list) \<Rightarrow> nat list \<Rightarrow> loop_state_fl
     \<Rightarrow> error + loop_state_fl" where
  "sgd_epochs_fl hp samples orders [] st = Inr st"
| "sgd_epochs_fl hp samples orders (iter # its) st =
     bind_err (sgd_epoch_fl hp samples (orders iter) iter st)
       (sgd_epochs_fl hp samples orders its)"

definition train_fl ::
  "hyper_fl \<Rightarrow> sample_fl list \<Rightarrow> (nat \<Rightarrow> nat list) \<Rightarrow> fl list \<Rightarrow> (fl list \<times> fl) option
     \<Rightarrow> error + loop_state_fl" where
  "train_fl hp samples orders w prev =
     sgd_epochs_fl hp samples orders [0..<num_iter_fl hp]
       \<lparr>weights_fl = w, cum_err_fl = Fin 0, bound_fl = prev, out_fl = []\<rparr>"

subsection \<open>Well-formed float64 runs\<close>

definition valid_sample_fl :: "nat \<Rightarrow> sample_fl \<Rightarrow> bool" where
  "valid_sample_fl K s = (length (features_fl s) = K \<and> task_id_fl s \<in> {Fin 0, Fin 1})"

definition visited_fl :: "sample_fl list \<Rightarrow> (nat \<Rightarrow> nat list) \<Rightarrow> nat \<Rightarrow> sample_fl list" where
  "visited_fl samples orders e = map (\<lambda>i. samples ! i) (orders e)"

definition valid_run_fl :: "nat \<Rightarrow> sample_fl list \<Rightarrow> (nat \<Rightarrow> nat list) \<Rightarrow> nat \<Rightarrow> bool" where
  "valid_run_fl K samples orders n =
     list_all (\<lambda>e. list_all (\<lambda>i. i < length samples \<and> valid_sample_fl K (samples ! i)) (orders e))
       [0..<n]"

definition is_task0_fl :: "sample_fl \<Rightarrow> bool" where
  "is_task0_fl s = (task_id_fl s = Fin 0)"

text \<open>The same order in every epoch.\<close>

definition every_epoch :: "nat list \<Rightarrow> nat \<Rightarrow> nat list" where
  "every_epoch idx e = idx"

text \<open>
  Two weight vectors have the same task-0 segment, unless one of the two segments holds
  a NaN.
\<close>

definition agree_unless_nan :: "nat \<Rightarrow> fl list \<Rightarrow> fl list \<Rightarrow> bool" where
  "agree_unless_nan K w v =
     (NaN \<in> set (take K w) \<or> NaN \<in> set (take K v) \<or> take K w = take K v)"

section \<open>Properties\<close>

subsection \<open>Auxiliary facts\<close>

lemma bind_err_Inr [simp]: "bind_err (Inr v) f = f v"
  by (simp add: bind_err_def)

lemma bind_err_Inl [simp]: "bind_err (Inl e) f = Inl e"
  by (simp add: bind_err_def)

lemma sum_list_map2_nth:
  assumes "length a = length b"
  shows "sum_list (map2 f a b) = (\<Sum>i\<leftarrow>[0..<length a]. f (a ! i) (b ! i))"
proof -
  have "map2 f a b = map (\<lambda>i. f (a ! i) (b ! i)) [0..<length a]"
    using assms by (intro nth_equalityI) simp_all
  then show ?thesis by simp
qed

text \<open>
  Closed forms of the gradient when the shapes fit: a sample of task 0 writes the first
  half, any other task identifier writes the second half.
\<close>

lemma coupled_gradient_task0:
  assumes "length x = K" and "length w = 2 * K"
  shows "coupled_gradient x 0 w y r cr =
    Inr (map (\<lambda>i. (sum_list (map2 (*) x (take K w)) - y) * x ! i + r * w ! i
                  + cr * (w ! i - w ! (K + i))) [0..<K] @ replicate K 0,
         sum_list (map2 (*) x (take K w)) - y)"
proof -
  let ?e = "sum_list (map2 (*) x (take K w)) - y"
  let ?cp = "np_scale 1 (map2 (-) (take K w) (drop K w))"
  have ft: "fill_terms 0 (2 * K) (np_scale ?e x) (take K w) ?cp
      = Inr (np_scale ?e x @ replicate K 0, take K w @ replicate K 0, ?cp @ replicate K 0)"
    using assms
    by (simp add: fill_terms_def set_head_def broadcast_to_def np_zeros_def np_scale_def)
  have "coupled_gradient x 0 w y r cr =
     Inr (map2 (+) (map2 (+) (np_scale ?e x @ replicate K 0)
                     (np_scale r (take K w @ replicate K 0)))
            (np_scale cr (?cp @ replicate K 0)), ?e)"
    using assms ft
    by (simp add: coupled_gradient_def w_seg_def np_dot_def np_binop_def np_scale_def Let_def)
  also have "map2 (+) (map2 (+) (np_scale ?e x @ replicate K 0)
                         (np_scale r (take K w @ replicate K 0)))
               (np_scale cr (?cp @ replicate K 0))
      = map (\<lambda>i. ?e * x ! i + r * w ! i + cr * (w ! i - w ! (K + i))) [0..<K] @ replicate K 0"
    using assms
    by (intro nth_equalityI) (auto simp: np_scale_def nth_append)
  finally show ?thesis .
qed

lemma coupled_gradient_task1:
  assumes "length x = K" and "length w = 2 * K" and "c \<noteq> 0"
  shows "coupled_gradient x c w y r cr =
    Inr (replicate K 0 @
         map (\<lambda>i. (sum_list (map2 (*) x (drop K w)) - y) * x ! i + r * w ! (K + i)
                  + cr * ((1 - 2 * c) * (w ! i - w ! (K + i)))) [0..<K],
         sum_list (map2 (*) x (drop K w)) - y)"
proof -
  let ?e = "sum_list (map2 (*) x (drop K w)) - y"
  let ?cp = "np_scale (1 - 2 * c) (map2 (-) (take K w) (drop K w))"
  have ft: "fill_terms c (2 * K) (np_scale ?e x) (drop K w) ?cp
      = Inr (replicate K 0 @ np_scale ?e x, replicate K 0 @ drop K w, replicate K 0 @ ?cp)"
    using assms
    by (simp add: fill_terms_def set_tail_def broadcast_to_def np_zeros_def np_scale_def)
  have "coupled_gradient x c w y r cr =
     Inr (map2 (+) (map2 (+) (replicate K 0 @ np_scale ?e x)
                     (np_scale r (replicate K 0 @ drop K w)))
            (np_scale cr (replicate K 0 @ ?cp)), ?e)"
    using assms ft
    by (simp add: coupled_gradient_def w_seg_def np_dot_def np_binop_def np_scale_def Let_def)
  also have "map2 (+) (map2 (+) (replicate K 0 @ np_scale ?e x)
                         (np_scale r (replicate K 0 @ drop K w)))
               (np_scale cr (replicate K 0 @ ?cp))
      = replicate K 0 @ map (\<lambda>i. ?e * x ! i + r * w ! (K + i)
                  + cr * ((1 - 2 * c) * (w ! i - w ! (K + i)))) [0..<K]"
    using assms
    by (intro nth_equalityI) (auto simp: np_scale_def nth_append)
  finally show ?thesis .
qed

text \<open>The same closed forms for the design document's wording.\<close>

lemma spec_dot_take:
  assumes "length x = K" and "K \<le> length v"
  shows "spec_dot K x (map (\<lambda>j. v ! j) [0..<K]) = sum_list (map2 (*) x (take K v))"
proof -
  have "spec_dot K x (map (\<lambda>j. v ! j) [0..<K]) = (\<Sum>i\<leftarrow>[0..<K]. x ! i * take K v ! i)"
    unfolding spec_dot_def by (rule arg_cong [where f = sum_list], rule map_cong) simp_all
  also have "\<dots> = sum_list (map2 (*) x (take K v))"
    using assms by (simp add: sum_list_map2_nth)
  finally show ?thesis .
qed

lemma spec_dot_drop:
  assumes "length x = K" and "length v = 2 * K"
  shows "spec_dot K x (map (\<lambda>j. v ! (K + j)) [0..<K]) = sum_list (map2 (*) x (drop K v))"
proof -
  have "spec_dot K x (map (\<lambda>j. v ! (K + j)) [0..<K]) = (\<Sum>i\<leftarrow>[0..<K]. x ! i * drop K v ! i)"
    unfolding spec_dot_def using assms
    by (intro arg_cong [where f = sum_list] map_cong) simp_all
  also have "\<dots> = sum_list (map2 (*) x (drop K v))"
    using assms by (simp add: sum_list_map2_nth)
  finally show ?thesis .
qed

lemma spec_error_task0:
  "length x = K \<Longrightarrow> length w = 2 * K \<Longrightarrow>
     spec_error K x 0 w y = sum_list (map2 (*) x (take K w)) - y"
  by (simp add: spec_error_def spec_w_active_def spec_w0_def spec_dot_take)

lemma spec_error_task1:
  "length x = K \<Longrightarrow> length w = 2 * K \<Longrightarrow> c \<noteq> 0 \<Longrightarrow>
     spec_error K x c w y = sum_list (map2 (*) x (drop K w)) - y"
  by (simp add: spec_error_def spec_w_active_def spec_w1_def spec_dot_drop)

lemma spec_gradient_task0:
  "spec_gradient K x 0 w y r cr =
     map (\<lambda>i. spec_error K x 0 w y * x ! i + r * w ! i + cr * (w ! i - w ! (K + i))) [0..<K]
     @ replicate K 0"
  by (intro nth_equalityI)
     (auto simp: spec_gradient_def spec_error_gradient_def spec_l2_gradient_def
        spec_coupling_gradient_def on_segment_def spec_sign_def spec_w_active_def
        spec_w0_def spec_w1_def nth_append)

lemma spec_gradient_task1:
  "spec_gradient K x 1 w y r cr =
     replicate K 0 @
     map (\<lambda>i. spec_error K x 1 w y * x ! i + r * w ! (K + i)
               + cr * ((1 - 2 * 1) * (w ! i - w ! (K + i)))) [0..<K]"
  by (intro nth_equalityI)
     (auto simp: spec_gradient_def spec_error_gradient_def spec_l2_gradient_def
        spec_coupling_gradient_def on_segment_def spec_sign_def spec_w_active_def
        spec_w0_def spec_w1_def nth_append algebra_simps)

lemma upt_small: "[0..<4] = [0, 1, 2, 3]" "[0..<2] = [0, 1]" "replicate 2 a = [a, a]"
  by (simp_all add: upt_rec numeral_2_eq_2)

lemma coupled_gradient_valid:
  assumes "length x = K" and "length w = 2 * K" and "c = 0 \<or> c = 1"
  shows "coupled_gradient x c w y r cr =
           Inr (spec_gradient K x c w y r cr, spec_error K x c w y)"
  using assms(3)
proof
  assume "c = 0"
  then show ?thesis
    using assms(1,2)
    by (simp add: coupled_gradient_task0 spec_gradient_task0 spec_error_task0)
next
  assume "c = 1"
  then show ?thesis
    using assms(1,2)
    by (simp add: coupled_gradient_task1 [where c = 1] spec_gradient_task1 spec_error_task1)
qed

subsection \<open>The gradient of one sample\<close>

text \<open>
  C1. For a sample with \<open>K\<close> features and task identifier 0 or 1 and a weight vector of
  \<open>2K\<close> entries, \<open>coupled_gradient\<close> returns the error \<open>dot(x, w_active) - y\<close> and the
  gradient that is the entrywise sum of the error gradient (\<open>error * x\<close>), the L2 gradient
  (\<open>reg * w_active\<close>) and the coupling gradient (\<open>coupling_reg * (w0 - w1) * s\<close>, with
  \<open>s = 1\<close> for task 0 and \<open>s = -1\<close> for task 1), each placed on the segment of the
  sample's task and zero on the other segment. The signs of \<open>reg\<close> and
  \<open>coupling_reg\<close> play no role.
\<close>

theorem gradient_matches_design:
  assumes "length x = K" and "length w = 2 * K" and "c = 0 \<or> c = 1"
  shows "coupled_gradient x c w y r cr =
           Inr (spec_gradient K x c w y r cr, spec_error K x c w y)"
  using assms by (rule coupled_gradient_valid)

theorem gradient_matches_design_witness:
  "coupled_gradient [1, 2] 1 [1, 2, 3, 5] 5 (1/2) 2 = Inr ([0, 0, 27 / 2, 49 / 2], 8)
   \<and> spec_gradient 2 [1, 2] 1 [1, 2, 3, 5] 5 (1/2) 2 = [0, 0, 27 / 2, 49 / 2]
   \<and> spec_error 2 [1, 2] 1 [1, 2, 3, 5] 5 = 8"
  using gradient_matches_design [of "[1, 2]" 2 "[1, 2, 3, 5]" 1 5 "1/2" 2]
  by (simp add: spec_gradient_def spec_error_gradient_def spec_l2_gradient_def
        spec_coupling_gradient_def on_segment_def spec_sign_def spec_w_active_def
        spec_w0_def spec_w1_def spec_error_def spec_dot_def upt_small)

text \<open>
  C2. The concrete scenario with \<open>K = 2\<close>: features \<open>[1, 0]\<close>, task 0, label 5,
  weights \<open>[0, 0, 0, 0]\<close>, \<open>reg = 0\<close>, \<open>coupling_reg = 0\<close> and learning rate
  \<open>0.1\<close>. The prediction is 0, the error \<open>-5\<close>, the gradient \<open>[-5, 0, 0, 0]\<close>, and
  one update gives the weights \<open>[0.5, 0, 0, 0]\<close>; a run of one iteration over this one
  sample ends with these weights.
\<close>

theorem single_sample_scenario:
  "np_dot [1, 0] (w_seg 0 [0, 0, 0, 0]) = Inr 0
   \<and> coupled_gradient [1, 0] 0 [0, 0, 0, 0] 5 0 0 = Inr ([- 5, 0, 0, 0], - 5)
   \<and> sgd_update (1/10) [0, 0, 0, 0] [- 5, 0, 0, 0] = Inr [1/2, 0, 0, 0]
   \<and> train \<lparr>reg = 0, coupling_reg = 0, learning_rate = 1/10, num_iter = 1\<rparr>
        [\<lparr>features = [1, 0], task_id = 0, label = 5\<rparr>] (\<lambda>e. [0]) [0, 0, 0, 0] None
      = Inr \<lparr>weights = [1/2, 0, 0, 0], cum_err = 25, bound = Some ([- 5, 0, 0, 0], - 5),
             out = [Report 0 25]\<rparr>"
proof -
  have d: "np_dot [1, 0] (w_seg 0 [0, 0, 0, 0]) = Inr 0"
    by (simp add: np_dot_def w_seg_def)
  have g: "coupled_gradient [1, 0] 0 [0, 0, 0, 0] 5 0 0 = Inr ([- 5, 0, 0, 0], - 5)"
    by (simp add: coupled_gradient_task0 [where K = 2] upt_small)
  have u: "sgd_update (1/10) [0, 0, 0, 0] [- 5, 0, 0, 0] = Inr [1/2, 0, 0, 0]"
    by (simp add: sgd_update_def broadcast_to_def np_scale_def)
  have t: "train \<lparr>reg = 0, coupling_reg = 0, learning_rate = 1/10, num_iter = 1\<rparr>
        [\<lparr>features = [1, 0], task_id = 0, label = 5\<rparr>] (\<lambda>e. [0]) [0, 0, 0, 0] None
      = Inr \<lparr>weights = [1/2, 0, 0, 0], cum_err = 25, bound = Some ([- 5, 0, 0, 0], - 5),
             out = [Report 0 25]\<rparr>"
    by (simp add: train_def sgd_epoch_def sgd_step_def apply_bound_def g u report_interval_def)
  from d g u t show ?thesis by simp
qed

text \<open>
  C3. For a sample of task \<open>t\<close> (0 or 1) with \<open>K\<close> features and a weight vector of
  \<open>2K\<close> entries, the gradient is returned, has \<open>2K\<close> entries, and is zero at every
  index outside the segment of \<open>t\<close>: at the indices \<open>[K, 2K)\<close> for task 0 and at
  \<open>[0, K)\<close> for task 1.
\<close>

theorem gradient_zero_off_segment:
  assumes "length x = K" and "length w = 2 * K" and "c = 0 \<or> c = 1"
  shows "\<exists>g e. coupled_gradient x c w y r cr = Inr (g, e) \<and> length g = 2 * K
           \<and> (\<forall>i<2 * K. (c = 0 \<and> K \<le> i \<longrightarrow> g ! i = 0) \<and> (c = 1 \<and> i < K \<longrightarrow> g ! i = 0))"
  using assms(3)
proof
  assume "c = 0"
  then show ?thesis
    using assms(1,2) by (simp add: coupled_gradient_task0 nth_append)
next
  assume "c = 1"
  then show ?thesis
    using assms(1,2) by (simp add: coupled_gradient_task1 [where c = 1] nth_append)
qed

theorem gradient_zero_off_segment_witness:
  "\<exists>g e. coupled_gradient [1, 2] 0 [1, 2, 3, 5] 5 (1/2) 2 = Inr (g, e) \<and> length g = 4
      \<and> g ! 2 = 0 \<and> g ! 3 = 0"
  using gradient_zero_off_segment [of "[1, 2]" 2 "[1, 2, 3, 5]" 0 5 "1/2" 2]
  by auto

text \<open>
  C10. A task identifier other than 0, also one outside \<open>{0, 1}\<close>, raises nothing
  when the shapes fit: the gradient is placed on segment 1, with the error taken against
  \<open>w1\<close>, and the coupling term is scaled by \<open>1 - 2c\<close>. For \<open>c = 2\<close> the
  coupling contribution on segment 1 is \<open>-3 * coupling_reg * (w0 - w1)\<close>.
\<close>

theorem nonzero_task_goes_to_segment1:
  assumes "length x = K" and "length w = 2 * K" and "c \<noteq> 0"
  shows "coupled_gradient x c w y r cr =
           Inr (replicate K 0 @
                map (\<lambda>i. (sum_list (map2 (*) x (drop K w)) - y) * x ! i + r * w ! (K + i)
                          + (1 - 2 * c) * (cr * (w ! i - w ! (K + i)))) [0..<K],
                sum_list (map2 (*) x (drop K w)) - y)
         \<and> coupled_gradient x 2 w y r cr =
           Inr (replicate K 0 @
                map (\<lambda>i. (sum_list (map2 (*) x (drop K w)) - y) * x ! i + r * w ! (K + i)
                          + - 3 * cr * (w ! i - w ! (K + i))) [0..<K],
                sum_list (map2 (*) x (drop K w)) - y)"
  using assms
  by (simp add: coupled_gradient_task1 [where c = c] coupled_gradient_task1 [where c = 2]
        algebra_simps)

theorem nonzero_task_goes_to_segment1_witness:
  "coupled_gradient [1, 2] 2 [1, 2, 3, 5] 5 0 1 = Inr ([0, 0, 14, 25], 8)"
  using nonzero_task_goes_to_segment1 [of "[1, 2]" 2 "[1, 2, 3, 5]" 2 5 0 1]
  by (simp add: upt_small)

subsection \<open>When the gradient fails\<close>

text \<open>
  C4, as the design document states it, does not hold: a task identifier outside
  \<open>{0, 1}\<close> is not rejected. Here \<open>c = 2\<close> with two features and four weights
  returns a gradient.
\<close>

theorem invalid_task_id_counterexample:
  "(2::real) \<notin> {0, 1} \<and> length [1, 0 :: real] = 2
   \<and> coupled_gradient [1, 0] 2 [0, 0, 0, 0] 5 0 0 = Inr ([0, 0, - 5, 0], - 5)"
  by (simp add: coupled_gradient_task1 [where K = 2] upt_small)

text \<open>
  C4, amended. For a weight vector of \<open>2K\<close> entries, \<open>coupled_gradient\<close> fails exactly
  when the number of features is not \<open>K\<close>, whatever the task identifier is; the failure
  is numpy's \<open>ValueError\<close>.
\<close>

theorem gradient_fails_iff_length:
  assumes "length w = 2 * K"
  shows "(coupled_gradient x c w y r cr = Inl ValueError) = (length x \<noteq> K)
       \<and> (\<exists>g e. coupled_gradient x c w y r cr = Inr (g, e)) = (length x = K)"
proof (cases "length x = K")
  case True
  then show ?thesis
    using assms by (cases "c = 0") (simp_all add: coupled_gradient_task0 coupled_gradient_task1)
next
  case False
  then have "coupled_gradient x c w y r cr = Inl ValueError"
    using assms by (simp add: coupled_gradient_def np_dot_def w_seg_def)
  with False show ?thesis by simp
qed

theorem gradient_fails_iff_length_witness:
  "coupled_gradient [1, 2, 3] 1 [1, 2, 3, 5] 5 1 1 = Inl ValueError
   \<and> (\<exists>g e. coupled_gradient [1, 2] 7 [1, 2, 3, 5] 5 1 1 = Inr (g, e))"
  using gradient_fails_iff_length [of "[1, 2, 3, 5]" 2 "[1, 2, 3]" 1 5 1 1]
    gradient_fails_iff_length [of "[1, 2, 3, 5]" 2 "[1, 2]" 7 5 1 1]
  by simp


lemma sgd_update_fits:
  "length g = length w \<Longrightarrow>
     sgd_update lr w g = Inr (map (\<lambda>k. w ! k - lr * g ! k) [0..<length w])"
  unfolding sgd_update_def broadcast_to_def np_scale_def
  by (simp, intro nth_equalityI) simp_all

text \<open>
  C5. When the gradient computation for the sample at an index inside the data raises,
  the loop does not stop: the handler prints the index, the features and the task
  identifier, and the update is then applied with whatever \<open>grad\<close> and \<open>err\<close> are bound
  to: the values of the last iteration that succeeded. The weights move by that stale
  gradient, the stale error is added (squared) to the cumulative error, and the pass
  goes on with the remaining indices. When nothing was ever bound, reading \<open>grad\<close> is a
  \<open>NameError\<close>, which leaves the loop.
\<close>

theorem failed_gradient_is_swallowed:
  assumes "i < length samples"
    and "coupled_gradient (features (samples ! i)) (task_id (samples ! i)) (weights st)
           (label (samples ! i)) (reg hp) (coupling_reg hp) = Inl e"
  shows "(bound st = None \<longrightarrow> sgd_pass hp samples (i # idx) st = Inl NameError)
       \<and> (\<forall>g er. bound st = Some (g, er) \<and> length g = length (weights st) \<longrightarrow>
            sgd_pass hp samples (i # idx) st =
              sgd_pass hp samples idx
                (st\<lparr>out := out st @ [Offending i (features (samples ! i)) (task_id (samples ! i))],
                    weights := map (\<lambda>k. weights st ! k - learning_rate hp * g ! k)
                                 [0..<length (weights st)],
                    cum_err := cum_err st + er\<^sup>2\<rparr>))"
  using assms
  by (simp add: sgd_step_def apply_bound_def sgd_update_fits Let_def)

theorem failed_gradient_is_swallowed_witness:
  "(1::nat) < length [\<lparr>features = [1, 0], task_id = 0, label = 5\<rparr>,
                     \<lparr>features = [1], task_id = 1, label = 5\<rparr>]
   \<and> coupled_gradient [1] 1 [1/2, 0, 0, 0] 5 0 0 = Inl ValueError
   \<and> sgd_pass \<lparr>reg = 0, coupling_reg = 0, learning_rate = 1/10, num_iter = 1\<rparr>
        [\<lparr>features = [1, 0], task_id = 0, label = 5\<rparr>,
         \<lparr>features = [1], task_id = 1, label = 5\<rparr>] [1]
        \<lparr>weights = [1/2, 0, 0, 0], cum_err = 25, bound = Some ([- 5, 0, 0, 0], - 5), out = []\<rparr>
      = Inr \<lparr>weights = [1, 0, 0, 0], cum_err = 50, bound = Some ([- 5, 0, 0, 0], - 5),
             out = [Offending 1 [1] 1]\<rparr>
   \<and> sgd_pass \<lparr>reg = 0, coupling_reg = 0, learning_rate = 1/10, num_iter = 1\<rparr>
        [\<lparr>features = [1, 0], task_id = 0, label = 5\<rparr>,
         \<lparr>features = [1], task_id = 1, label = 5\<rparr>] [1]
        \<lparr>weights = [1/2, 0, 0, 0], cum_err = 25, bound = None, out = []\<rparr>
      = Inl NameError"
proof -
  let ?hp = "\<lparr>reg = 0, coupling_reg = 0, learning_rate = 1/10, num_iter = 1\<rparr>"
  let ?S = "[\<lparr>features = [1, 0], task_id = 0, label = 5\<rparr>,
             \<lparr>features = [1], task_id = 1, label = 5\<rparr>]"
  have len: "(1::nat) < length ?S" by simp
  have f: "coupled_gradient [1] 1 [1/2, 0, 0, 0] 5 0 0 = Inl ValueError"
    by (simp add: coupled_gradient_def np_dot_def w_seg_def)
  have f1: "coupled_gradient (features (?S ! 1)) (task_id (?S ! 1))
             (weights \<lparr>weights = [1/2, 0, 0, 0], cum_err = 25,
                       bound = Some ([- 5, 0, 0, 0], - 5), out = []\<rparr>)
             (label (?S ! 1)) (reg ?hp) (coupling_reg ?hp) = Inl ValueError"
    using f by simp
  have f2: "coupled_gradient (features (?S ! 1)) (task_id (?S ! 1))
             (weights \<lparr>weights = [1/2, 0, 0, 0], cum_err = 25, bound = None, out = []\<rparr>)
             (label (?S ! 1)) (reg ?hp) (coupling_reg ?hp) = Inl ValueError"
    using f by simp
  show ?thesis
    using failed_gradient_is_swallowed [OF len f1, of "[]"]
      failed_gradient_is_swallowed [OF len f2, of "[]"] len f
    by (simp add: upt_small)
qed

subsection \<open>Whole runs\<close>


text \<open>
  C8. A run of zero iterations returns the weights it started from and has printed
  nothing, so the sequence of losses is empty.
\<close>

theorem zero_epochs_is_noop:
  "\<exists>st. train (hp\<lparr>num_iter := 0\<rparr>) samples orders w prev = Inr st
      \<and> weights st = w \<and> out st = [] \<and> epoch_losses (out st) = []"
  by (simp add: train_def)

subsection \<open>Runs over well-formed data\<close>

text \<open>
  On data that satisfies the invariant of the design document no iteration raises, and
  the script's loop computes what the design document describes.
\<close>

lemma length_spec_gradient [simp]: "length (spec_gradient K x c w y r cr) = 2 * K"
  by (simp add: spec_gradient_def)

lemma length_spec_update [simp]: "length (spec_update K hp w s) = 2 * K"
  by (simp add: spec_update_def)

lemma sgd_step_valid:
  assumes "i < length samples" and "valid_sample K (samples ! i)"
    and "length (weights st) = 2 * K"
  shows "sgd_step hp samples i st =
     Inr (st\<lparr>bound := Some (spec_gradient K (features (samples ! i)) (task_id (samples ! i))
                                (weights st) (label (samples ! i)) (reg hp) (coupling_reg hp),
                              spec_error K (features (samples ! i)) (task_id (samples ! i))
                                (weights st) (label (samples ! i))),
             weights := spec_update K hp (weights st) (samples ! i),
             cum_err := cum_err st
               + (spec_error K (features (samples ! i)) (task_id (samples ! i))
                    (weights st) (label (samples ! i)))\<^sup>2\<rparr>)"
proof -
  have "coupled_gradient (features (samples ! i)) (task_id (samples ! i)) (weights st)
          (label (samples ! i)) (reg hp) (coupling_reg hp)
        = Inr (spec_gradient K (features (samples ! i)) (task_id (samples ! i))
                                (weights st) (label (samples ! i)) (reg hp) (coupling_reg hp),
               spec_error K (features (samples ! i)) (task_id (samples ! i))
                                (weights st) (label (samples ! i)))"
    using assms(2,3) by (intro coupled_gradient_valid) (simp_all add: valid_sample_def)
  then show ?thesis
    using assms(1,3)
    by (simp add: sgd_step_def apply_bound_def sgd_update_fits Let_def spec_update_def)
qed

lemma sgd_pass_valid:
  assumes "list_all (\<lambda>i. i < length samples \<and> valid_sample K (samples ! i)) idx"
    and "length (weights st) = 2 * K"
  shows "\<exists>st'. sgd_pass hp samples idx st = Inr st'
           \<and> (weights st', cum_err st')
               = spec_pass K hp (map (\<lambda>i. samples ! i) idx) (weights st, cum_err st)
           \<and> out st' = out st \<and> length (weights st') = 2 * K"
  using assms
proof (induction idx arbitrary: st)
  case Nil
  then show ?case by simp
next
  case (Cons i idx)
  let ?s = "samples ! i"
  let ?e = "spec_error K (features ?s) (task_id ?s) (weights st) (label ?s)"
  let ?g = "spec_gradient K (features ?s) (task_id ?s) (weights st) (label ?s) (reg hp) (coupling_reg hp)"
  let ?st1 = "st\<lparr>bound := Some (?g, ?e), weights := spec_update K hp (weights st) ?s,
                 cum_err := cum_err st + ?e\<^sup>2\<rparr>"
  have step: "sgd_step hp samples i st = Inr ?st1"
    using Cons.prems by (intro sgd_step_valid) simp_all
  have "\<exists>st'. sgd_pass hp samples idx ?st1 = Inr st'
           \<and> (weights st', cum_err st')
               = spec_pass K hp (map (\<lambda>i. samples ! i) idx) (weights ?st1, cum_err ?st1)
           \<and> out st' = out ?st1 \<and> length (weights st') = 2 * K"
    using Cons.prems by (intro Cons.IH) simp_all
  then show ?case
    by (simp add: step)
qed

lemma sgd_epoch_valid:
  assumes "list_all (\<lambda>i. i < length samples \<and> valid_sample K (samples ! i)) idx"
    and "length (weights st) = 2 * K"
  shows "\<exists>st'. sgd_epoch hp samples idx it st = Inr st'
           \<and> weights st' = fst (spec_epoch K hp (map (\<lambda>i. samples ! i) idx) (weights st))
           \<and> out st' = out st @
                (if it mod report_interval = 0
                 then [Report it (snd (spec_epoch K hp (map (\<lambda>i. samples ! i) idx) (weights st)))]
                 else [])
           \<and> length (weights st') = 2 * K"
proof -
  obtain st1 where p: "sgd_pass hp samples idx (st\<lparr>cum_err := 0\<rparr>) = Inr st1"
    and ws: "(weights st1, cum_err st1)
               = spec_pass K hp (map (\<lambda>i. samples ! i) idx) (weights st, 0)"
    and o: "out st1 = out st" and len: "length (weights st1) = 2 * K"
    using sgd_pass_valid [OF assms(1), of "st\<lparr>cum_err := 0\<rparr>" hp] assms(2) by auto
  from ws have "weights st1 = fst (spec_epoch K hp (map (\<lambda>i. samples ! i) idx) (weights st))"
    and "cum_err st1 = snd (spec_epoch K hp (map (\<lambda>i. samples ! i) idx) (weights st))"
    unfolding spec_epoch_def by (metis fst_conv, metis snd_conv)
  then show ?thesis
    using o len by (simp add: sgd_epoch_def p)
qed

lemma sgd_epochs_valid:
  assumes "valid_run K samples orders b"
    and "length (weights st) = 2 * K"
    and "weights st = spec_weights_at K hp (visited samples orders) w a"
    and "a \<le> b"
  shows "\<exists>st'. sgd_epochs hp samples orders [a..<b] st = Inr st'
           \<and> weights st' = spec_weights_at K hp (visited samples orders) w b
           \<and> out st' = out st @
                map (\<lambda>e. Report e (spec_epoch_loss K hp (visited samples orders) w e))
                  (filter (\<lambda>e. e mod report_interval = 0) [a..<b])"
  using assms(2-4)
proof (induction "b - a" arbitrary: a st)
  case 0
  then show ?case by simp
next
  case (Suc n)
  then have lt: "a < b" by simp
  then have ok: "list_all (\<lambda>i. i < length samples \<and> valid_sample K (samples ! i)) (orders a)"
    using assms(1) by (simp add: valid_run_def list_all_iff)
  obtain st1 where e: "sgd_epoch hp samples (orders a) a st = Inr st1"
    and w1: "weights st1 = fst (spec_epoch K hp (map (\<lambda>i. samples ! i) (orders a)) (weights st))"
    and o1: "out st1 = out st @
                (if a mod report_interval = 0
                 then [Report a (snd (spec_epoch K hp (map (\<lambda>i. samples ! i) (orders a)) (weights st)))]
                 else [])"
    and len1: "length (weights st1) = 2 * K"
    using sgd_epoch_valid [OF ok Suc.prems(1), of hp a] by blast
  have w1': "weights st1 = spec_weights_at K hp (visited samples orders) w (Suc a)"
    using w1 Suc.prems(2) by (simp add: visited_def)
  have o1': "out st1 = out st @
        map (\<lambda>e. Report e (spec_epoch_loss K hp (visited samples orders) w e))
          (filter (\<lambda>e. e mod report_interval = 0) [a])"
    using o1 Suc.prems(2) by (simp add: spec_epoch_loss_def visited_def)
  have "\<exists>st'. sgd_epochs hp samples orders [Suc a..<b] st1 = Inr st'
           \<and> weights st' = spec_weights_at K hp (visited samples orders) w b
           \<and> out st' = out st1 @
                map (\<lambda>e. Report e (spec_epoch_loss K hp (visited samples orders) w e))
                  (filter (\<lambda>e. e mod report_interval = 0) [Suc a..<b])"
    using Suc.hyps(2) lt len1 w1' by (intro Suc.hyps(1)) simp_all
  then show ?case
    using lt by (auto simp: upt_conv_Cons e o1')
qed

lemma epoch_losses_reports [simp]: "epoch_losses (map (\<lambda>e. Report e (f e)) es) = map f es"
  by (induction es) simp_all

text \<open>
  C9. On well-formed data (every visited index inside the data, every sample with \<open>K\<close>
  features and task 0 or 1, \<open>2K\<close> weights) the run returns after exactly
  \<open>num_iter\<close> epochs: its final weights are the weights the design document's loop has
  at the start of epoch \<open>num_iter\<close>. The printed losses are, in order, the cumulative
  squared errors of exactly the epochs \<open>e < num_iter\<close> with
  \<open>e mod report_interval = 0\<close>, each accumulated from zero over the samples of that
  epoch alone. The reporting period of the script is 10.
\<close>

theorem training_loop_matches_design:
  assumes "valid_run K samples orders (num_iter hp)" and "length w = 2 * K"
  shows "\<exists>st. train hp samples orders w prev = Inr st
           \<and> weights st = spec_weights_at K hp (visited samples orders) w (num_iter hp)
           \<and> epoch_losses (out st) =
               map (spec_epoch_loss K hp (visited samples orders) w)
                 (filter (\<lambda>e. e mod report_interval = 0) [0..<num_iter hp])"
proof -
  obtain st where "train hp samples orders w prev = Inr st"
    and "weights st = spec_weights_at K hp (visited samples orders) w (num_iter hp)"
    and "out st = map (\<lambda>e. Report e (spec_epoch_loss K hp (visited samples orders) w e))
                  (filter (\<lambda>e. e mod report_interval = 0) [0..<num_iter hp])"
    unfolding train_def
    using sgd_epochs_valid [OF assms(1), of "\<lparr>weights = w, cum_err = 0, bound = prev, out = []\<rparr>" hp w 0]
      assms(2)
    by auto
  then show ?thesis by simp
qed


lemma upt_11: "[0..<11] = [0, 1, 2, 3, 4, 5, 6, 7, 8, 9, 10]"
  by (simp add: upt_rec)

lemma run11: "train \<lparr>reg = 0, coupling_reg = 0, learning_rate = 1, num_iter = 11\<rparr>
     [\<lparr>features = [1], task_id = 0, label = 0\<rparr>, \<lparr>features = [1], task_id = 1, label = 2\<rparr>]
     (\<lambda>e. [0, 1]) [1, 0] None
   = Inr \<lparr>weights = [0, 2], cum_err = 0, bound = Some ([0, 0], 0),
          out = [Report 0 5, Report 10 0]\<rparr>"
  by (simp add: train_def upt_11 sgd_epoch_def sgd_step_def apply_bound_def sgd_update_def
       broadcast_to_def np_scale_def report_interval_def coupled_gradient_def np_dot_def
       w_seg_def np_binop_def fill_terms_def set_head_def set_tail_def np_zeros_def)

theorem training_loop_matches_design_witness:
  "valid_run 1 [\<lparr>features = [1], task_id = 0, label = 0\<rparr>, \<lparr>features = [1], task_id = 1, label = 2\<rparr>]
      (\<lambda>e. [0, 1]) 11
   \<and> train \<lparr>reg = 0, coupling_reg = 0, learning_rate = 1, num_iter = 11\<rparr>
     [\<lparr>features = [1], task_id = 0, label = 0\<rparr>, \<lparr>features = [1], task_id = 1, label = 2\<rparr>]
     (\<lambda>e. [0, 1]) [1, 0] None
     = Inr \<lparr>weights = [0, 2], cum_err = 0, bound = Some ([0, 0], 0),
          out = [Report 0 5, Report 10 0]\<rparr>
   \<and> spec_weights_at 1 \<lparr>reg = 0, coupling_reg = 0, learning_rate = 1, num_iter = 11\<rparr>
       (visited [\<lparr>features = [1], task_id = 0, label = 0\<rparr>, \<lparr>features = [1], task_id = 1, label = 2\<rparr>]
          (\<lambda>e. [0, 1])) [1, 0] 11 = [0, 2]
   \<and> map (spec_epoch_loss 1 \<lparr>reg = 0, coupling_reg = 0, learning_rate = 1, num_iter = 11\<rparr>
       (visited [\<lparr>features = [1], task_id = 0, label = 0\<rparr>, \<lparr>features = [1], task_id = 1, label = 2\<rparr>]
          (\<lambda>e. [0, 1])) [1, 0]) (filter (\<lambda>e. e mod report_interval = 0) [0..<11]) = [5, 0]"
proof -
  let ?hp = "\<lparr>reg = 0, coupling_reg = 0, learning_rate = 1, num_iter = 11\<rparr>"
  let ?S = "[\<lparr>features = [1], task_id = 0, label = 0\<rparr>, \<lparr>features = [1], task_id = 1, label = 2\<rparr>]"
  have vr: "valid_run 1 ?S (\<lambda>e. [0, 1]) (num_iter ?hp)"
    by (simp add: valid_run_def valid_sample_def list_all_iff)
  have len: "length [1, 0 :: real] = 2 * 1" by simp
  show ?thesis
    using training_loop_matches_design [OF vr len, of None] vr run11
    by auto
qed

subsection \<open>Runs in input order\<close>











section \<open>Properties of the float64 runs\<close>

subsection \<open>Arithmetic\<close>

lemma fl_max_ge: "2 \<le> fl_max"
  by (simp add: fl_max_def)

lemma fl_of_in: "\<bar>r\<bar> \<le> fl_max \<Longrightarrow> fl_of r = Fin r"
  by (auto simp: fl_of_def)

lemma fl_of_0 [simp]: "fl_of 0 = Fin 0"
  using fl_max_ge by (simp add: fl_of_in)

lemma fl_of_1 [simp]: "fl_of 1 = Fin 1"
  using fl_max_ge by (simp add: fl_of_in)

lemma is_f64_fl_of [simp]: "is_f64 (fl_of r)"
  by (auto simp: fl_of_def)

lemma is_f64_add [simp]: "is_f64 (fl_add u v)"
  by (cases u; cases v) simp_all

lemma fl_add_NaN [simp]: "fl_add u NaN = NaN"
  by (cases u) simp_all

lemma fl_mul_NaN [simp]: "fl_mul u NaN = NaN"
  by (cases u) simp_all

lemma fl_add_zero: "is_f64 u \<Longrightarrow> fl_add u (Fin 0) = u"
  by (cases u) (simp_all add: fl_of_in)

lemma fl_mul_zero_cases: "fl_mul (Fin 0) u = Fin 0 \<or> fl_mul (Fin 0) u = NaN"
  by (cases u) simp_all

lemma clean_or_nan:
  "fl_add u (fl_mul nl (fl_add (fl_add p q) (fl_mul (Fin 0) t))) = NaN
   \<or> fl_add u (fl_mul nl (fl_add (fl_add p q) (fl_mul (Fin 0) t)))
      = fl_add u (fl_mul nl (fl_add p q))"
  using fl_mul_zero_cases [of t] by (auto simp: fl_add_zero)

subsection \<open>One step\<close>

text \<open>
  Closed forms of the gradient when the shapes fit. On the segment of the other task
  every entry is \<open>(0 + reg * 0) + coupling_reg * 0\<close>.
\<close>

lemma coupled_gradient_fl_task0:
  assumes "length x = K" and "length w = 2 * K"
  shows "coupled_gradient_fl x (Fin 0) w y r cr =
    Inr (map (\<lambda>i. fl_add (fl_add (fl_mul (fl_sub (foldl fl_add (Fin 0) (map2 fl_mul x (take K w))) y) (x ! i))
                              (fl_mul r (w ! i)))
                      (fl_mul cr (fl_mul (Fin 1) (fl_sub (w ! i) (w ! (K + i)))))) [0..<K]
         @ replicate K (fl_add (fl_add (Fin 0) (fl_mul r (Fin 0))) (fl_mul cr (Fin 0))),
         fl_sub (foldl fl_add (Fin 0) (map2 fl_mul x (take K w))) y)"
proof -
  let ?e = "fl_sub (foldl fl_add (Fin 0) (map2 fl_mul x (take K w))) y"
  let ?cp = "np_scale_fl (Fin 1) (map2 fl_sub (take K w) (drop K w))"
  have s: "fl_sub (Fin 1) (Fin 0) = Fin 1"
    by (simp add: fl_sub_def)
  have ft: "fill_terms_fl (Fin 0) (2 * K) (np_scale_fl ?e x) (take K w) ?cp
      = Inr (np_scale_fl ?e x @ replicate K (Fin 0), take K w @ replicate K (Fin 0),
             ?cp @ replicate K (Fin 0))"
    using assms
    by (simp add: fill_terms_fl_def set_head_fl_def broadcast_to_fl_def np_zeros_fl_def
          np_scale_fl_def)
  have "coupled_gradient_fl x (Fin 0) w y r cr =
     Inr (map2 fl_add (map2 fl_add (np_scale_fl ?e x @ replicate K (Fin 0))
                     (np_scale_fl r (take K w @ replicate K (Fin 0))))
            (np_scale_fl cr (?cp @ replicate K (Fin 0))), ?e)"
    using assms ft
    by (simp add: coupled_gradient_fl_def w_seg_fl_def np_dot_fl_def np_binop_fl_def
          np_scale_fl_def Let_def s)
  also have "map2 fl_add (map2 fl_add (np_scale_fl ?e x @ replicate K (Fin 0))
                     (np_scale_fl r (take K w @ replicate K (Fin 0))))
            (np_scale_fl cr (?cp @ replicate K (Fin 0)))
      = map (\<lambda>i. fl_add (fl_add (fl_mul ?e (x ! i)) (fl_mul r (w ! i)))
                      (fl_mul cr (fl_mul (Fin 1) (fl_sub (w ! i) (w ! (K + i)))))) [0..<K]
         @ replicate K (fl_add (fl_add (Fin 0) (fl_mul r (Fin 0))) (fl_mul cr (Fin 0)))"
    using assms
    by (intro nth_equalityI) (auto simp: np_scale_fl_def nth_append)
  finally show ?thesis .
qed

lemma coupled_gradient_fl_task1:
  assumes "length x = K" and "length w = 2 * K" and "c \<noteq> Fin 0"
  shows "\<exists>g e. coupled_gradient_fl x c w y r cr =
    Inr (replicate K (fl_add (fl_add (Fin 0) (fl_mul r (Fin 0))) (fl_mul cr (Fin 0))) @ g, e)
    \<and> length g = K"
proof -
  let ?e = "fl_sub (foldl fl_add (Fin 0) (map2 fl_mul x (drop K w))) y"
  let ?cp = "np_scale_fl (fl_sub (Fin 1) (fl_mul (Fin 2) c)) (map2 fl_sub (take K w) (drop K w))"
  have ft: "fill_terms_fl c (2 * K) (np_scale_fl ?e x) (drop K w) ?cp
      = Inr (replicate K (Fin 0) @ np_scale_fl ?e x, replicate K (Fin 0) @ drop K w,
             replicate K (Fin 0) @ ?cp)"
    using assms
    by (simp add: fill_terms_fl_def set_tail_fl_def broadcast_to_fl_def np_zeros_fl_def
          np_scale_fl_def)
  have "coupled_gradient_fl x c w y r cr =
     Inr (map2 fl_add (map2 fl_add (replicate K (Fin 0) @ np_scale_fl ?e x)
                     (np_scale_fl r (replicate K (Fin 0) @ drop K w)))
            (np_scale_fl cr (replicate K (Fin 0) @ ?cp)), ?e)"
    using assms ft
    by (simp add: coupled_gradient_fl_def w_seg_fl_def np_dot_fl_def np_binop_fl_def
          np_scale_fl_def Let_def)
  also have "map2 fl_add (map2 fl_add (replicate K (Fin 0) @ np_scale_fl ?e x)
                     (np_scale_fl r (replicate K (Fin 0) @ drop K w)))
            (np_scale_fl cr (replicate K (Fin 0) @ ?cp))
      = replicate K (fl_add (fl_add (Fin 0) (fl_mul r (Fin 0))) (fl_mul cr (Fin 0)))
        @ map (\<lambda>i. fl_add (fl_add (fl_mul ?e (x ! i)) (fl_mul r (w ! (K + i))))
                      (fl_mul cr (fl_mul (fl_sub (Fin 1) (fl_mul (Fin 2) c))
                                   (fl_sub (w ! i) (w ! (K + i)))))) [0..<K]"
    using assms
    by (intro nth_equalityI) (auto simp: np_scale_fl_def nth_append)
  finally show ?thesis by simp
qed

lemma sgd_update_fl_fits:
  "length g = length w \<Longrightarrow>
     sgd_update_fl lr w g
       = Inr (map (\<lambda>k. fl_add (w ! k) (fl_mul (fl_neg lr) (g ! k))) [0..<length w])"
  unfolding sgd_update_fl_def broadcast_to_fl_def np_scale_fl_def
  by (simp, intro nth_equalityI) simp_all

lemma sgd_step_fl_shape:
  assumes "i < length samples"
    and "coupled_gradient_fl (features_fl (samples ! i)) (task_id_fl (samples ! i))
           (weights_fl st) (label_fl (samples ! i)) (reg_fl hp) (coupling_reg_fl hp) = Inr (g, e)"
    and "length g = length (weights_fl st)"
  shows "sgd_step_fl hp samples i st =
     Inr (st\<lparr>bound_fl := Some (g, e),
             weights_fl := map (\<lambda>k. fl_add (weights_fl st ! k)
                                   (fl_mul (fl_neg (learning_rate_fl hp)) (g ! k)))
                             [0..<length (weights_fl st)],
             cum_err_fl := fl_add (cum_err_fl st) (fl_mul e e)\<rparr>)"
  using assms by (simp add: sgd_step_fl_def apply_bound_fl_def sgd_update_fl_fits Let_def)

text \<open>
  A step on a sample of the other task leaves the task-0 segment as it is. A step on a
  task-0 sample with \<open>coupling_reg = 0\<close> sets each entry of the task-0 segment either
  to NaN (when the coupling entry \<open>w0 - w1\<close> is not finite, so that \<open>0\<close> times it is
  NaN) or to a value computed from the task-0 segment alone; an entry that is NaN stays
  NaN.
\<close>

lemma nan_in_take:
  "K \<le> length w \<Longrightarrow> NaN \<in> set (take K w) \<longleftrightarrow> (\<exists>j<K. w ! j = NaN)"
  by (auto simp: in_set_conv_nth)

lemma agree_step:
  assumes "agree_unless_nan K w v"
    and "length w = 2 * K" and "length v = 2 * K"
    and "length w' = 2 * K" and "length v' = 2 * K"
    and "\<And>j. j < K \<Longrightarrow> w ! j = NaN \<Longrightarrow> w' ! j = NaN"
    and "\<And>j. j < K \<Longrightarrow> v ! j = NaN \<Longrightarrow> v' ! j = NaN"
    and "\<And>j. take K w = take K v \<Longrightarrow> j < K \<Longrightarrow> w' ! j = NaN \<or> v' ! j = NaN \<or> w' ! j = v' ! j"
  shows "agree_unless_nan K w' v'"
proof -
  consider "\<exists>j<K. w ! j = NaN" | "\<exists>j<K. v ! j = NaN" | "take K w = take K v"
    using assms(1-3) by (auto simp: agree_unless_nan_def nan_in_take)
  then show ?thesis
  proof cases
    case 1
    then have "\<exists>j<K. w' ! j = NaN" using assms(6) by blast
    then show ?thesis using assms(4) by (simp add: agree_unless_nan_def nan_in_take)
  next
    case 2
    then have "\<exists>j<K. v' ! j = NaN" using assms(7) by blast
    then show ?thesis using assms(5) by (simp add: agree_unless_nan_def nan_in_take)
  next
    case 3
    show ?thesis
    proof (cases "(\<exists>j<K. w' ! j = NaN) \<or> (\<exists>j<K. v' ! j = NaN)")
      case True
      then show ?thesis
        using assms(4,5) by (auto simp: agree_unless_nan_def nan_in_take)
    next
      case False
      then have "\<forall>j<K. w' ! j = v' ! j" using assms(8) [OF 3] by blast
      then have "take K w' = take K v'"
        using assms(4,5) by (intro nth_equalityI) simp_all
      then show ?thesis by (simp add: agree_unless_nan_def)
    qed
  qed
qed

lemma step_other_task_fl:
  assumes "i < length samples" and "length (features_fl (samples ! i)) = K"
    and "task_id_fl (samples ! i) \<noteq> Fin 0"
    and "length (weights_fl st) = 2 * K" and "list_all is_f64 (weights_fl st)"
    and "reg_fl hp = Fin r" and "coupling_reg_fl hp = Fin c" and "learning_rate_fl hp = Fin l"
  shows "\<exists>st'. sgd_step_fl hp samples i st = Inr st' \<and> length (weights_fl st') = 2 * K
           \<and> list_all is_f64 (weights_fl st')
           \<and> take K (weights_fl st') = take K (weights_fl st)"
proof -
  let ?s = "samples ! i"
  obtain g e where cg: "coupled_gradient_fl (features_fl ?s) (task_id_fl ?s) (weights_fl st)
      (label_fl ?s) (reg_fl hp) (coupling_reg_fl hp) = Inr (replicate K (Fin 0) @ g, e)"
    and g: "length g = K"
    using coupled_gradient_fl_task1 [OF assms(2,4,3), of "label_fl ?s" "reg_fl hp" "coupling_reg_fl hp"]
      assms(6,7)
    by auto
  let ?w' = "map (\<lambda>k. fl_add (weights_fl st ! k)
                     (fl_mul (fl_neg (learning_rate_fl hp)) ((replicate K (Fin 0) @ g) ! k)))
               [0..<length (weights_fl st)]"
  have step: "sgd_step_fl hp samples i st =
     Inr (st\<lparr>bound_fl := Some (replicate K (Fin 0) @ g, e), weights_fl := ?w',
             cum_err_fl := fl_add (cum_err_fl st) (fl_mul e e)\<rparr>)"
    using assms(1) cg g assms(4) by (intro sgd_step_fl_shape) simp_all
  have f64: "list_all is_f64 ?w'"
    by (simp add: list_all_iff)
  have keep: "take K ?w' = take K (weights_fl st)"
  proof (intro nth_equalityI)
    show "length (take K ?w') = length (take K (weights_fl st))" by simp
  next
    fix j assume "j < length (take K ?w')"
    then have j: "j < K" and j2: "j < 2 * K" using assms(4) by simp_all
    have "is_f64 (weights_fl st ! j)"
      using assms(4,5) j2 by (simp add: list_all_length)
    then show "take K ?w' ! j = take K (weights_fl st) ! j"
      using j j2 assms(4,8) by (simp add: nth_append fl_add_zero)
  qed
  show ?thesis
    using step f64 keep assms(4) by simp
qed

lemma step_task0_fl:
  assumes "i < length samples" and "length (features_fl (samples ! i)) = K"
    and "task_id_fl (samples ! i) = Fin 0"
    and "length (weights_fl st) = 2 * K"
    and "coupling_reg_fl hp = Fin 0"
  shows "\<exists>st'. sgd_step_fl hp samples i st = Inr st' \<and> length (weights_fl st') = 2 * K
           \<and> list_all is_f64 (weights_fl st')
           \<and> (\<forall>j<K. weights_fl st ! j = NaN \<longrightarrow> weights_fl st' ! j = NaN)
           \<and> (\<forall>j<K. weights_fl st' ! j = NaN \<or>
                 weights_fl st' ! j =
                   fl_add (take K (weights_fl st) ! j)
                     (fl_mul (fl_neg (learning_rate_fl hp))
                        (fl_add (fl_mul (fl_sub (foldl fl_add (Fin 0)
                                   (map2 fl_mul (features_fl (samples ! i)) (take K (weights_fl st))))
                                   (label_fl (samples ! i)))
                                  (features_fl (samples ! i) ! j))
                                (fl_mul (reg_fl hp) (take K (weights_fl st) ! j)))))"
proof -
  let ?s = "samples ! i"
  let ?w = "weights_fl st"
  let ?e = "fl_sub (foldl fl_add (Fin 0) (map2 fl_mul (features_fl ?s) (take K ?w))) (label_fl ?s)"
  let ?g = "map (\<lambda>i. fl_add (fl_add (fl_mul ?e (features_fl ?s ! i)) (fl_mul (reg_fl hp) (?w ! i)))
                      (fl_mul (Fin 0) (fl_mul (Fin 1) (fl_sub (?w ! i) (?w ! (K + i)))))) [0..<K]
         @ replicate K (fl_add (fl_add (Fin 0) (fl_mul (reg_fl hp) (Fin 0))) (fl_mul (Fin 0) (Fin 0)))"
  have cg: "coupled_gradient_fl (features_fl ?s) (task_id_fl ?s) ?w
      (label_fl ?s) (reg_fl hp) (coupling_reg_fl hp) = Inr (?g, ?e)"
    using coupled_gradient_fl_task0 [OF assms(2,4), of "label_fl ?s" "reg_fl hp" "Fin 0"] assms(3,5)
    by simp
  let ?w' = "map (\<lambda>k. fl_add (?w ! k) (fl_mul (fl_neg (learning_rate_fl hp)) (?g ! k)))
               [0..<length ?w]"
  have step: "sgd_step_fl hp samples i st =
     Inr (st\<lparr>bound_fl := Some (?g, ?e), weights_fl := ?w',
             cum_err_fl := fl_add (cum_err_fl st) (fl_mul ?e ?e)\<rparr>)"
    using assms(1) cg assms(4) by (intro sgd_step_fl_shape) simp_all
  have f64: "list_all is_f64 ?w'"
    by (simp add: list_all_iff)
  have absorb: "\<forall>j<K. ?w ! j = NaN \<longrightarrow> ?w' ! j = NaN"
    using assms(4) by simp
  have clean: "?w' ! j = NaN \<or>
       ?w' ! j = fl_add (take K ?w ! j)
                     (fl_mul (fl_neg (learning_rate_fl hp))
                        (fl_add (fl_mul ?e (features_fl ?s ! j))
                                (fl_mul (reg_fl hp) (take K ?w ! j))))" if "j < K" for j
  proof -
    have "?w' ! j = fl_add (?w ! j) (fl_mul (fl_neg (learning_rate_fl hp))
            (fl_add (fl_add (fl_mul ?e (features_fl ?s ! j)) (fl_mul (reg_fl hp) (?w ! j)))
                      (fl_mul (Fin 0) (fl_mul (Fin 1) (fl_sub (?w ! j) (?w ! (K + j)))))))"
      using that assms(4) by (simp add: nth_append)
    then show ?thesis
      using that clean_or_nan [of "?w ! j" "fl_neg (learning_rate_fl hp)"
          "fl_mul ?e (features_fl ?s ! j)" "fl_mul (reg_fl hp) (?w ! j)"
          "fl_mul (Fin 1) (fl_sub (?w ! j) (?w ! (K + j)))"]
      by auto
  qed
  show ?thesis
    using step f64 absorb clean assms(4) by simp
qed

subsection \<open>Whole runs\<close>

lemma sgd_pass_fl_decoupled:
  assumes "reg_fl hp = Fin r" and "coupling_reg_fl hp = Fin 0" and "learning_rate_fl hp = Fin l"
    and "list_all (\<lambda>i. i < length samples \<and> valid_sample_fl K (samples ! i)) idx"
    and "list_all (\<lambda>i. i < length samples0) idx0"
    and "map (\<lambda>i. samples0 ! i) idx0
           = filter (\<lambda>s. task_id_fl s = Fin 0) (map (\<lambda>i. samples ! i) idx)"
    and "length (weights_fl st) = 2 * K" and "length (weights_fl st0) = 2 * K"
    and "list_all is_f64 (weights_fl st)"
    and "agree_unless_nan K (weights_fl st) (weights_fl st0)"
  shows "\<exists>st' st0'. sgd_pass_fl hp samples idx st = Inr st'
           \<and> sgd_pass_fl hp samples0 idx0 st0 = Inr st0'
           \<and> length (weights_fl st') = 2 * K \<and> length (weights_fl st0') = 2 * K
           \<and> list_all is_f64 (weights_fl st')
           \<and> agree_unless_nan K (weights_fl st') (weights_fl st0')"
  using assms(4-10)
proof (induction idx arbitrary: idx0 st st0)
  case Nil
  then show ?case by simp
next
  case (Cons i idx)
  let ?s = "samples ! i"
  have i: "i < length samples" and len: "length (features_fl ?s) = K"
    using Cons.prems(1) by (simp_all add: valid_sample_fl_def)
  have rest: "list_all (\<lambda>i. i < length samples \<and> valid_sample_fl K (samples ! i)) idx"
    using Cons.prems(1) by simp
  show ?case
  proof (cases "task_id_fl ?s = Fin 0")
    case False
    obtain st1 where s1: "sgd_step_fl hp samples i st = Inr st1"
      and l1: "length (weights_fl st1) = 2 * K" and f1: "list_all is_f64 (weights_fl st1)"
      and k1: "take K (weights_fl st1) = take K (weights_fl st)"
      using step_other_task_fl [OF i len False Cons.prems(4,6) assms(1,2,3)] by blast
    have a1: "agree_unless_nan K (weights_fl st1) (weights_fl st0)"
      using Cons.prems(7) k1 by (simp add: agree_unless_nan_def)
    have m: "map (\<lambda>i. samples0 ! i) idx0
           = filter (\<lambda>s. task_id_fl s = Fin 0) (map (\<lambda>i. samples ! i) idx)"
      using Cons.prems(3) False by simp
    show ?thesis
      using Cons.IH [OF rest Cons.prems(2) m l1 Cons.prems(5) f1 a1] s1 by simp
  next
    case True
    from Cons.prems(3) True obtain i0 idx0' where idx0: "idx0 = i0 # idx0'"
      and same: "samples0 ! i0 = ?s"
      and m: "map (\<lambda>i. samples0 ! i) idx0'
           = filter (\<lambda>s. task_id_fl s = Fin 0) (map (\<lambda>i. samples ! i) idx)"
      by (cases idx0) auto
    have i0: "i0 < length samples0" and rest0: "list_all (\<lambda>i. i < length samples0) idx0'"
      using Cons.prems(2) idx0 by simp_all
    have len0: "length (features_fl (samples0 ! i0)) = K" and t0: "task_id_fl (samples0 ! i0) = Fin 0"
      using same len True by simp_all
    obtain st1 where s1: "sgd_step_fl hp samples i st = Inr st1"
      and l1: "length (weights_fl st1) = 2 * K" and f1: "list_all is_f64 (weights_fl st1)"
      and ab1: "\<forall>j<K. weights_fl st ! j = NaN \<longrightarrow> weights_fl st1 ! j = NaN"
      and c1: "\<forall>j<K. weights_fl st1 ! j = NaN \<or>
                 weights_fl st1 ! j =
                   fl_add (take K (weights_fl st) ! j)
                     (fl_mul (fl_neg (learning_rate_fl hp))
                        (fl_add (fl_mul (fl_sub (foldl fl_add (Fin 0)
                                   (map2 fl_mul (features_fl ?s) (take K (weights_fl st))))
                                   (label_fl ?s))
                                  (features_fl ?s ! j))
                                (fl_mul (reg_fl hp) (take K (weights_fl st) ! j))))"
      using step_task0_fl [OF i len True Cons.prems(4) assms(2)] by blast
    obtain st01 where s01: "sgd_step_fl hp samples0 i0 st0 = Inr st01"
      and l01: "length (weights_fl st01) = 2 * K"
      and ab01: "\<forall>j<K. weights_fl st0 ! j = NaN \<longrightarrow> weights_fl st01 ! j = NaN"
      and c01: "\<forall>j<K. weights_fl st01 ! j = NaN \<or>
                 weights_fl st01 ! j =
                   fl_add (take K (weights_fl st0) ! j)
                     (fl_mul (fl_neg (learning_rate_fl hp))
                        (fl_add (fl_mul (fl_sub (foldl fl_add (Fin 0)
                                   (map2 fl_mul (features_fl ?s) (take K (weights_fl st0))))
                                   (label_fl ?s))
                                  (features_fl ?s ! j))
                                (fl_mul (reg_fl hp) (take K (weights_fl st0) ! j))))"
      using step_task0_fl [OF i0 len0 t0 Cons.prems(5) assms(2)] same by auto
    have a1: "agree_unless_nan K (weights_fl st1) (weights_fl st01)"
    proof (rule agree_step [OF Cons.prems(7) Cons.prems(4,5) l1 l01])
      fix j assume "j < K" "weights_fl st ! j = NaN"
      then show "weights_fl st1 ! j = NaN" using ab1 by blast
    next
      fix j assume "j < K" "weights_fl st0 ! j = NaN"
      then show "weights_fl st01 ! j = NaN" using ab01 by blast
    next
      fix j assume eq: "take K (weights_fl st) = take K (weights_fl st0)" and j: "j < K"
      show "weights_fl st1 ! j = NaN \<or> weights_fl st01 ! j = NaN
              \<or> weights_fl st1 ! j = weights_fl st01 ! j"
        using c1 c01 j unfolding eq by metis
    qed
    show ?thesis
      using Cons.IH [OF rest rest0 m l1 l01 f1 a1] s1 s01 idx0 by simp
  qed
qed

lemma sgd_epoch_fl_decoupled:
  assumes "reg_fl hp = Fin r" and "coupling_reg_fl hp = Fin 0" and "learning_rate_fl hp = Fin l"
    and "list_all (\<lambda>i. i < length samples \<and> valid_sample_fl K (samples ! i)) idx"
    and "list_all (\<lambda>i. i < length samples0) idx0"
    and "map (\<lambda>i. samples0 ! i) idx0
           = filter (\<lambda>s. task_id_fl s = Fin 0) (map (\<lambda>i. samples ! i) idx)"
    and "length (weights_fl st) = 2 * K" and "length (weights_fl st0) = 2 * K"
    and "list_all is_f64 (weights_fl st)"
    and "agree_unless_nan K (weights_fl st) (weights_fl st0)"
  shows "\<exists>st' st0'. sgd_epoch_fl hp samples idx it st = Inr st'
           \<and> sgd_epoch_fl hp samples0 idx0 it st0 = Inr st0'
           \<and> length (weights_fl st') = 2 * K \<and> length (weights_fl st0') = 2 * K
           \<and> list_all is_f64 (weights_fl st')
           \<and> agree_unless_nan K (weights_fl st') (weights_fl st0')"
proof -
  obtain st1 st01 where "sgd_pass_fl hp samples idx (st\<lparr>cum_err_fl := Fin 0\<rparr>) = Inr st1"
    and "sgd_pass_fl hp samples0 idx0 (st0\<lparr>cum_err_fl := Fin 0\<rparr>) = Inr st01"
    and "length (weights_fl st1) = 2 * K" and "length (weights_fl st01) = 2 * K"
    and "list_all is_f64 (weights_fl st1)"
    and "agree_unless_nan K (weights_fl st1) (weights_fl st01)"
    using sgd_pass_fl_decoupled [OF assms(1-6), of "st\<lparr>cum_err_fl := Fin 0\<rparr>"
        "st0\<lparr>cum_err_fl := Fin 0\<rparr>"] assms(7-10)
    by auto
  then show ?thesis
    by (simp add: sgd_epoch_fl_def)
qed

lemma sgd_epochs_fl_decoupled:
  assumes "reg_fl hp = Fin r" and "coupling_reg_fl hp = Fin 0" and "learning_rate_fl hp = Fin l"
    and "valid_run_fl K samples orders b"
    and "\<forall>e<b. list_all (\<lambda>i. i < length samples0) (orders0 e)"
    and "\<forall>e<b. visited_fl samples0 orders0 e
                 = filter (\<lambda>s. task_id_fl s = Fin 0) (visited_fl samples orders e)"
    and "length (weights_fl st) = 2 * K" and "length (weights_fl st0) = 2 * K"
    and "list_all is_f64 (weights_fl st)"
    and "agree_unless_nan K (weights_fl st) (weights_fl st0)"
  shows "\<exists>st' st0'. sgd_epochs_fl hp samples orders [a..<b] st = Inr st'
           \<and> sgd_epochs_fl hp samples0 orders0 [a..<b] st0 = Inr st0'
           \<and> agree_unless_nan K (weights_fl st') (weights_fl st0')"
  using assms(7-10)
proof (induction "b - a" arbitrary: a st st0)
  case 0
  then show ?case by simp
next
  case (Suc n)
  then have lt: "a < b" by simp
  have v: "list_all (\<lambda>i. i < length samples \<and> valid_sample_fl K (samples ! i)) (orders a)"
    using assms(4) lt by (simp add: valid_run_fl_def list_all_iff)
  have v0: "list_all (\<lambda>i. i < length samples0) (orders0 a)"
    using assms(5) lt by simp
  have m: "map (\<lambda>i. samples0 ! i) (orders0 a)
           = filter (\<lambda>s. task_id_fl s = Fin 0) (map (\<lambda>i. samples ! i) (orders a))"
    using assms(6) lt by (simp add: visited_fl_def)
  obtain st1 st01 where e1: "sgd_epoch_fl hp samples (orders a) a st = Inr st1"
    and e01: "sgd_epoch_fl hp samples0 (orders0 a) a st0 = Inr st01"
    and l1: "length (weights_fl st1) = 2 * K" and l01: "length (weights_fl st01) = 2 * K"
    and f1: "list_all is_f64 (weights_fl st1)"
    and a1: "agree_unless_nan K (weights_fl st1) (weights_fl st01)"
    using sgd_epoch_fl_decoupled [OF assms(1-3) v v0 m Suc.prems, of a] by blast
  have "\<exists>st' st0'. sgd_epochs_fl hp samples orders [Suc a..<b] st1 = Inr st'
           \<and> sgd_epochs_fl hp samples0 orders0 [Suc a..<b] st01 = Inr st0'
           \<and> agree_unless_nan K (weights_fl st') (weights_fl st0')"
    using Suc.hyps(2) lt by (intro Suc.hyps(1) l1 l01 f1 a1) simp
  then show ?case
    using lt by (auto simp: upt_conv_Cons e1 e01)
qed

lemma upt_1: "[0..<1] = [0]"
  by (simp add: upt_rec)

lemmas fl_run_defs = train_fl_def sgd_epoch_fl_def sgd_step_fl_def apply_bound_fl_def
  sgd_update_fl_def broadcast_to_fl_def np_scale_fl_def report_interval_def
  coupled_gradient_fl_def np_dot_fl_def w_seg_fl_def np_binop_fl_def fill_terms_fl_def
  set_head_fl_def set_tail_fl_def np_zeros_fl_def every_epoch_def fl_sub_def fl_of_def fl_max_def
  Let_def

text \<open>
  C6, as the design document states it, does not hold for float64 weights. With
  \<open>K = 1\<close>, \<open>reg = coupling_reg = 0\<close>, learning rate 1, one epoch in input order and
  zero initial weights: the task-1 sample \<open>(x = [2^600], y = 2^600)\<close> makes \<open>err * x\<close>
  overflow, so \<open>w1\<close> becomes infinite; at the task-0 sample \<open>(x = [1], y = 1)\<close> the
  coupling entry is \<open>0 - inf\<close> and \<open>coupling_reg\<close> times it is \<open>0 * inf = NaN\<close>. The
  full run ends with \<open>w0 = NaN\<close>, the run over the task-0 sample alone with \<open>w0 = 1\<close>.
\<close>

theorem overflow_breaks_decoupling_counterexample:
  "coupling_reg_fl \<lparr>reg_fl = Fin 0, coupling_reg_fl = Fin 0, learning_rate_fl = Fin 1, num_iter_fl = 1\<rparr> = Fin 0
   \<and> valid_sample_fl 1 \<lparr>features_fl = [Fin (2 ^ 600)], task_id_fl = Fin 1, label_fl = Fin (2 ^ 600)\<rparr>
   \<and> valid_sample_fl 1 \<lparr>features_fl = [Fin 1], task_id_fl = Fin 0, label_fl = Fin 1\<rparr>
   \<and> filter is_task0_fl
        [\<lparr>features_fl = [Fin (2 ^ 600)], task_id_fl = Fin 1, label_fl = Fin (2 ^ 600)\<rparr>,
         \<lparr>features_fl = [Fin 1], task_id_fl = Fin 0, label_fl = Fin 1\<rparr>]
       = [\<lparr>features_fl = [Fin 1], task_id_fl = Fin 0, label_fl = Fin 1\<rparr>]
   \<and> train_fl \<lparr>reg_fl = Fin 0, coupling_reg_fl = Fin 0, learning_rate_fl = Fin 1, num_iter_fl = 1\<rparr>
        [\<lparr>features_fl = [Fin (2 ^ 600)], task_id_fl = Fin 1, label_fl = Fin (2 ^ 600)\<rparr>,
         \<lparr>features_fl = [Fin 1], task_id_fl = Fin 0, label_fl = Fin 1\<rparr>]
        (every_epoch [0, 1]) [Fin 0, Fin 0] None
      = Inr \<lparr>weights_fl = [NaN, PInf], cum_err_fl = PInf,
             bound_fl = Some ([NaN, Fin 0], Fin (- 1)), out_fl = [Report_fl 0 PInf]\<rparr>
   \<and> train_fl \<lparr>reg_fl = Fin 0, coupling_reg_fl = Fin 0, learning_rate_fl = Fin 1, num_iter_fl = 1\<rparr>
        [\<lparr>features_fl = [Fin 1], task_id_fl = Fin 0, label_fl = Fin 1\<rparr>]
        (every_epoch [0]) [Fin 0, Fin 0] None
      = Inr \<lparr>weights_fl = [Fin 1, Fin 0], cum_err_fl = Fin 1,
             bound_fl = Some ([Fin (- 1), Fin 0], Fin (- 1)), out_fl = [Report_fl 0 (Fin 1)]\<rparr>
   \<and> take 1 [NaN, PInf] \<noteq> take 1 [Fin 1, Fin 0]"
  by (simp add: fl_run_defs upt_1 valid_sample_fl_def is_task0_fl_def)

text \<open>
  C6, amended. With \<open>coupling_reg = 0\<close>, finite \<open>reg\<close> and learning rate, and
  float64 initial weights, take a run over well-formed data in some order and a run
  that in every epoch visits exactly the task-0 samples of the first run, in the same
  relative order. Both return, and their final task-0 segments (the first \<open>K\<close>
  weights) are equal unless one of the two segments holds a NaN.
\<close>

theorem task0_weights_decoupled_unless_nan:
  assumes "reg_fl hp = Fin r" and "coupling_reg_fl hp = Fin 0" and "learning_rate_fl hp = Fin l"
    and "length w = 2 * K" and "list_all is_f64 w"
    and "valid_run_fl K samples orders (num_iter_fl hp)"
    and "\<forall>e<num_iter_fl hp. list_all (\<lambda>i. i < length samples0) (orders0 e)"
    and "\<forall>e<num_iter_fl hp. visited_fl samples0 orders0 e
           = filter is_task0_fl (visited_fl samples orders e)"
  shows "\<exists>st st0. train_fl hp samples orders w prev = Inr st
           \<and> train_fl hp samples0 orders0 w prev0 = Inr st0
           \<and> (NaN \<notin> set (take K (weights_fl st)) \<and> NaN \<notin> set (take K (weights_fl st0))
                \<longrightarrow> take K (weights_fl st) = take K (weights_fl st0))"
proof -
  let ?sa = "\<lparr>weights_fl = w, cum_err_fl = Fin 0, bound_fl = prev, out_fl = []\<rparr>"
  let ?sb = "\<lparr>weights_fl = w, cum_err_fl = Fin 0, bound_fl = prev0, out_fl = []\<rparr>"
  have sub: "\<forall>e<num_iter_fl hp. visited_fl samples0 orders0 e
           = filter (\<lambda>s. task_id_fl s = Fin 0) (visited_fl samples orders e)"
    using assms(8) by (simp add: is_task0_fl_def [abs_def])
  have "agree_unless_nan K (weights_fl ?sa) (weights_fl ?sb)"
    by (simp add: agree_unless_nan_def)
  then obtain st st0 where "train_fl hp samples orders w prev = Inr st"
    and "train_fl hp samples0 orders0 w prev0 = Inr st0"
    and "agree_unless_nan K (weights_fl st) (weights_fl st0)"
    unfolding train_fl_def
    using sgd_epochs_fl_decoupled [OF assms(1-3,6,7) sub, where st = ?sa and ?st0.0 = ?sb and a = 0]
      assms(4,5)
    by auto
  then show ?thesis
    by (auto simp: agree_unless_nan_def)
qed

theorem task0_weights_decoupled_unless_nan_witness:
  "train_fl \<lparr>reg_fl = Fin 1, coupling_reg_fl = Fin 0, learning_rate_fl = Fin (1/2), num_iter_fl = 2\<rparr>
     [\<lparr>features_fl = [Fin 1], task_id_fl = Fin 1, label_fl = Fin 2\<rparr>,
      \<lparr>features_fl = [Fin 2], task_id_fl = Fin 0, label_fl = Fin 1\<rparr>,
      \<lparr>features_fl = [Fin 1], task_id_fl = Fin 0, label_fl = Fin 0\<rparr>]
     (every_epoch [2, 0, 1]) [Fin 1, Fin 0] None
     = Inr \<lparr>weights_fl = [Fin 1, Fin 1], cum_err_fl = Fin 3,
            bound_fl = Some ([Fin (- 2), Fin 0], Fin (- 1)), out_fl = [Report_fl 0 (Fin 6)]\<rparr>
   \<and> train_fl \<lparr>reg_fl = Fin 1, coupling_reg_fl = Fin 0, learning_rate_fl = Fin (1/2), num_iter_fl = 2\<rparr>
     [\<lparr>features_fl = [Fin 2], task_id_fl = Fin 0, label_fl = Fin 1\<rparr>,
      \<lparr>features_fl = [Fin 1], task_id_fl = Fin 0, label_fl = Fin 0\<rparr>]
     (every_epoch [1, 0]) [Fin 1, Fin 0] None
     = Inr \<lparr>weights_fl = [Fin 1, Fin 0], cum_err_fl = Fin 2,
            bound_fl = Some ([Fin (- 2), Fin 0], Fin (- 1)), out_fl = [Report_fl 0 (Fin 2)]\<rparr>
   \<and> NaN \<notin> set (take 1 [Fin 1, Fin 1]) \<and> NaN \<notin> set (take 1 [Fin 1, Fin 0])
   \<and> take 1 [Fin 1, Fin 1] = take 1 [Fin 1, Fin 0]"
proof -
  let ?hp = "\<lparr>reg_fl = Fin 1, coupling_reg_fl = Fin 0, learning_rate_fl = Fin (1/2), num_iter_fl = 2\<rparr>"
  let ?S = "[\<lparr>features_fl = [Fin 1], task_id_fl = Fin 1, label_fl = Fin 2\<rparr>,
      \<lparr>features_fl = [Fin 2], task_id_fl = Fin 0, label_fl = Fin 1\<rparr>,
      \<lparr>features_fl = [Fin 1], task_id_fl = Fin 0, label_fl = Fin 0\<rparr>]"
  let ?T = "[\<lparr>features_fl = [Fin 2], task_id_fl = Fin 0, label_fl = Fin 1\<rparr>,
      \<lparr>features_fl = [Fin 1], task_id_fl = Fin 0, label_fl = Fin 0\<rparr>]"
  have r: "reg_fl ?hp = Fin 1" and cr: "coupling_reg_fl ?hp = Fin 0"
    and lr: "learning_rate_fl ?hp = Fin (1/2)" by simp_all
  have len: "length [Fin 1, Fin 0] = 2 * 1" by simp
  have f64: "list_all is_f64 [Fin 1, Fin 0]"
    using fl_max_ge by simp
  have vr: "valid_run_fl 1 ?S (every_epoch [2, 0, 1]) (num_iter_fl ?hp)"
    by (simp add: valid_run_fl_def valid_sample_fl_def upt_small every_epoch_def)
  have rng: "\<forall>e<num_iter_fl ?hp. list_all (\<lambda>i. i < length ?T) (every_epoch [1, 0] e)"
    by (simp add: every_epoch_def)
  have sub: "\<forall>e<num_iter_fl ?hp. visited_fl ?T (every_epoch [1, 0]) e
               = filter is_task0_fl (visited_fl ?S (every_epoch [2, 0, 1]) e)"
    by (simp add: visited_fl_def every_epoch_def is_task0_fl_def)
  have run: "train_fl ?hp ?S (every_epoch [2, 0, 1]) [Fin 1, Fin 0] None
     = Inr \<lparr>weights_fl = [Fin 1, Fin 1], cum_err_fl = Fin 3,
            bound_fl = Some ([Fin (- 2), Fin 0], Fin (- 1)), out_fl = [Report_fl 0 (Fin 6)]\<rparr>"
    by (simp add: fl_run_defs upt_small)
  have run0: "train_fl ?hp ?T (every_epoch [1, 0]) [Fin 1, Fin 0] None
     = Inr \<lparr>weights_fl = [Fin 1, Fin 0], cum_err_fl = Fin 2,
            bound_fl = Some ([Fin (- 2), Fin 0], Fin (- 1)), out_fl = [Report_fl 0 (Fin 2)]\<rparr>"
    by (simp add: fl_run_defs upt_small)
  show ?thesis
    using task0_weights_decoupled_unless_nan [OF r cr lr len f64 vr rng sub, of None None] run run0
    by simp
qed

end
